theory Spec2Isabelle
  imports Main
begin

section \<open>Platform values\<close>

text \<open>
  JavaScript strings are modelled as \<^typ>\<open>string\<close>. Every literal of the sources lies in
  Latin-1, so a UTF-16 code unit of a literal is one \<^typ>\<open>char\<close>; the accented letters are
  written by their code (\<open>CHR 0xFA\<close> is u-acute, \<open>CHR 0xF3\<close> o-acute, \<open>CHR 0xED\<close> i-acute).

  An exception is a value of \<open>error\<close>: the kind says which constructor of the platform
  raised it, the string is its \<open>message\<close> property.
\<close>

datatype error = ReferenceError string | SyntaxError string | Error string

fun message :: "error \<Rightarrow> string" where
  "message (ReferenceError m) = m"
| "message (SyntaxError m) = m"
| "message (Error m) = m"

text \<open>What a template literal makes of an exception object (\<open>name: message\<close>).\<close>

fun error_toString :: "error \<Rightarrow> string" where
  "error_toString (ReferenceError m) = ''ReferenceError: '' @ m"
| "error_toString (SyntaxError m) = ''SyntaxError: '' @ m"
| "error_toString (Error m) = ''Error: '' @ m"

text \<open>
  A JavaScript \<open>Set\<close> keeps its members in the order of their first insertion; spreading
  it (\<open>[...s]\<close>) or \<open>forEach\<close> visits them in that order. It is modelled by the list
  of its members in that order.
\<close>

definition Set_add :: "'a list \<Rightarrow> 'a \<Rightarrow> 'a list" where
  "Set_add s x = (if x \<in> set s then s else s @ [x])"

definition Set_new :: "'a list \<Rightarrow> 'a list" where
  "Set_new xs = foldl Set_add [] xs"

text \<open>\<open>Array.prototype.join\<close>.\<close>

fun Array_join :: "string list \<Rightarrow> string \<Rightarrow> string" where
  "Array_join [] sep = []"
| "Array_join [x] sep = x"
| "Array_join (x # y # ys) sep = x @ sep @ Array_join (y # ys) sep"

type_synonym hoja = "string list list"
type_synonym bitacora = "string list"

section \<open>API\_Permisos.js\<close>

text \<open>
  The object \<open>obtenerConjuntoPermisos\<close> returns. The access levels are the strings the
  code writes: \<open>Ninguno\<close>, \<open>Visualizador\<close>, \<open>Editor\<close>.
\<close>

record conjunto =
  editores :: "string list"
  visualizadores :: "string list"
  accesoPublico :: string
  accesoDominio :: string

text \<open>\<open>DriveApp.Access\<close> and \<open>DriveApp.Permission\<close>.\<close>

datatype Access = ANYONE | ANYONE_WITH_LINK | DOMAIN | DOMAIN_WITH_LINK | PRIVATE

datatype Permission = VIEW | EDIT | COMMENT | OWNER | ORGANIZER | FILE_ORGANIZER | NONE

text \<open>
  A Drive file or folder as \<open>obtenerConjuntoPermisos\<close> reads it: each of the four
  platform calls either throws or answers. \<open>getEditors\<close> and \<open>getViewers\<close> answer with
  the users; a user is modelled by what \<open>getEmail\<close> gives for it.
\<close>

record archivoDrive =
  getEditors :: "error + string list"
  getViewers :: "error + string list"
  getSharingAccess :: "error + Access"
  getSharingPermission :: "error + Permission"

text \<open>
  The third \<open>try\<close> block: both calls are made before either variable is assigned, so
  an exception of either leaves both levels at \<open>Ninguno\<close>. The pair is
  \<open>(accesoPublico, accesoDominio)\<close>.
\<close>

definition accesosDeEnlace :: "archivoDrive \<Rightarrow> string \<times> string" where
  "accesosDeEnlace archivoDrive =
     (case getSharingAccess archivoDrive of
        Inl e \<Rightarrow> (''Ninguno'', ''Ninguno'')
      | Inr accesoCompartido \<Rightarrow>
          (case getSharingPermission archivoDrive of
             Inl e \<Rightarrow> (''Ninguno'', ''Ninguno'')
           | Inr permisoCompartido \<Rightarrow>
               if accesoCompartido = ANYONE \<or> accesoCompartido = ANYONE_WITH_LINK then
                 (if permisoCompartido = EDIT then (''Editor'', ''Ninguno'')
                  else if permisoCompartido = VIEW then (''Visualizador'', ''Ninguno'')
                  else (''Ninguno'', ''Ninguno''))
               else if accesoCompartido = DOMAIN \<or> accesoCompartido = DOMAIN_WITH_LINK then
                 (if permisoCompartido = EDIT then (''Ninguno'', ''Editor'')
                  else if permisoCompartido = VIEW then (''Ninguno'', ''Visualizador'')
                  else (''Ninguno'', ''Ninguno''))
               else (''Ninguno'', ''Ninguno'')))"

definition obtenerConjuntoPermisos :: "archivoDrive \<Rightarrow> conjunto" where
  "obtenerConjuntoPermisos archivoDrive =
     (let editoresSet =
            (case getEditors archivoDrive of
               Inl e \<Rightarrow> []
             | Inr usuarios \<Rightarrow> foldl Set_add [] usuarios);
          visualizadoresSet =
            (case getViewers archivoDrive of
               Inl e \<Rightarrow> []
             | Inr usuarios \<Rightarrow> foldl Set_add [] usuarios);
          enlace = accesosDeEnlace archivoDrive;
          visualizadoresFinales = filter (\<lambda>v. v \<notin> set editoresSet) visualizadoresSet
      in \<lparr> editores = editoresSet,
           visualizadores = visualizadoresFinales,
           accesoPublico = fst enlace,
           accesoDominio = snd enlace \<rparr>)"

definition obtenerNivelAccesoUsuario :: "string \<Rightarrow> conjunto \<Rightarrow> string" where
  "obtenerNivelAccesoUsuario emailUsuario conjuntoPermisos =
     (if emailUsuario \<in> set (editores conjuntoPermisos) then ''Editor''
      else if emailUsuario \<in> set (visualizadores conjuntoPermisos) then ''Visualizador''
      else ''Ninguno'')"

definition todosLosUsuarios :: "conjunto \<Rightarrow> conjunto \<Rightarrow> string list" where
  "todosLosUsuarios conjuntoPadre conjuntoHijo =
     Set_new (editores conjuntoPadre @ visualizadores conjuntoPadre @
              editores conjuntoHijo @ visualizadores conjuntoHijo)"

text \<open>
  The flag \<open>diferenciasDetectadas\<close> as it stands when line 104 tests it: the
  \<open>forEach\<close> over the union sets it at each user whose two levels differ, then the
  comparison of the link levels sets it.
\<close>

definition diferenciasDetectadas :: "conjunto \<Rightarrow> conjunto \<Rightarrow> bool" where
  "diferenciasDetectadas conjuntoPadre conjuntoHijo =
     (let porUsuario =
            foldl (\<lambda>bandera usuario.
                     if obtenerNivelAccesoUsuario usuario conjuntoPadre \<noteq>
                        obtenerNivelAccesoUsuario usuario conjuntoHijo
                     then True else bandera)
                  False (todosLosUsuarios conjuntoPadre conjuntoHijo)
      in if accesoPublico conjuntoPadre \<noteq> accesoPublico conjuntoHijo \<or>
            accesoDominio conjuntoPadre \<noteq> accesoDominio conjuntoHijo
         then True else porUsuario)"

text \<open>The array \<open>listaUsuariosRoles\<close> after its four groups of \<open>push\<close>.\<close>

definition listaUsuariosRoles :: "conjunto \<Rightarrow> string \<Rightarrow> string list" where
  "listaUsuariosRoles conjuntoHijo dominioOrganizacion =
     (let l0 = [];
          l1 = (if accesoPublico conjuntoHijo \<noteq> ''Ninguno''
                then l0 @ [''P'' @ [CHR 0xFA] @ ''blico (Cualquiera con enlace) - '' @
                           accesoPublico conjuntoHijo]
                else l0);
          l2 = (if accesoDominio conjuntoHijo \<noteq> ''Ninguno''
                then l1 @ [''Dominio ('' @ dominioOrganizacion @ '') - '' @
                           accesoDominio conjuntoHijo]
                else l1);
          l3 = foldl (\<lambda>l correo. l @ [correo @ '' - Editor'']) l2 (editores conjuntoHijo);
          l4 = foldl (\<lambda>l correo. l @ [correo @ '' - Visualizador'']) l3
                 (visualizadores conjuntoHijo)
      in l4)"

definition soloPorHerencia :: string where
  "soloPorHerencia =
     ''Permisos solo por herencia (pero presenta diferencias en configuraci'' @ [CHR 0xF3] @
     ''n de enlace)''"

definition usuariosTexto :: "conjunto \<Rightarrow> string \<Rightarrow> string" where
  "usuariosTexto conjuntoHijo dominioOrganizacion =
     (let lista = listaUsuariosRoles conjuntoHijo dominioOrganizacion
      in if length lista > 0 then Array_join lista '', '' else soloPorHerencia)"

text \<open>
  \<open>registrarDiferenciasPermisos\<close> declares six parameters: \<open>conjuntoPadre\<close>,
  \<open>conjuntoHijo\<close>, \<open>ruta\<close>, \<open>url\<close>, \<open>tipoItem\<close>, \<open>dominioOrganizacion\<close>. Its
  last statement, \<open>hojaReporte.appendRow([ruta, url, tipoItem, usuariosTexto])\<close>, uses
  the identifier \<open>hojaReporte\<close>, which is none of them, so JavaScript looks it up in the
  global scope. The first argument of the model is that global binding: \<open>None\<close> when
  the global scope has no \<open>hojaReporte\<close> (the lookup throws a \<open>ReferenceError\<close>),
  \<open>Some h\<close> when it is bound to a sheet with rows \<open>h\<close>. The function returns nothing;
  the model returns the binding as the call leaves it, and the log.
\<close>

definition registrarDiferenciasPermisos ::
  "hoja option \<Rightarrow> conjunto \<Rightarrow> conjunto \<Rightarrow> string \<Rightarrow> string \<Rightarrow> string \<Rightarrow> string \<Rightarrow> bitacora \<Rightarrow>
   (error + hoja option) \<times> bitacora" where
  "registrarDiferenciasPermisos hojaReporteGlobal conjuntoPadre conjuntoHijo ruta url tipoItem
       dominioOrganizacion Logger =
     (if diferenciasDetectadas conjuntoPadre conjuntoHijo then
        (let Logger1 = Logger @ [''-> Se encontraron diferencias de permisos en: '' @ ruta];
             texto = usuariosTexto conjuntoHijo dominioOrganizacion
         in case hojaReporteGlobal of
              None \<Rightarrow> (Inl (ReferenceError ''hojaReporte is not defined''), Logger1)
            | Some h \<Rightarrow> (Inr (Some (h @ [[ruta, url, tipoItem, texto]])), Logger1))
      else (Inr hojaReporteGlobal, Logger))"

text \<open>
  No file of the repository declares \<open>hojaReporte\<close> at top level: it is a local
  \<open>const\<close> of \<open>continuarAuditoria\<close> and a local \<open>let\<close> of \<open>iniciarAuditoria\<close>.
  This is the global binding the repository's calls run with.
\<close>

definition hojaReporte_global :: "hoja option" where
  "hojaReporte_global = None"

section \<open>The single-file variant (getPermissionSet, getAccess, logDifferences)\<close>


definition getAccess :: "string \<Rightarrow> conjunto \<Rightarrow> string" where
  "getAccess userEmail permissionSet =
     (if userEmail \<in> set (editores permissionSet) then ''Editor''
      else if userEmail \<in> set (visualizadores permissionSet) then ''Visualizador''
      else ''Ninguno'')"

definition differencesFound :: "conjunto \<Rightarrow> conjunto \<Rightarrow> bool" where
  "differencesFound parentSet childSet =
     (let allUsers = Set_new (editores parentSet @ visualizadores parentSet @
                              editores childSet @ visualizadores childSet);
          byUser = foldl (\<lambda>found user.
                            if getAccess user parentSet \<noteq> getAccess user childSet
                            then True else found)
                         False allUsers
      in if accesoPublico parentSet \<noteq> accesoPublico childSet \<or>
            accesoDominio parentSet \<noteq> accesoDominio childSet
         then True else byUser)"

definition usersWithRole :: "conjunto \<Rightarrow> string \<Rightarrow> string list" where
  "usersWithRole childSet domain0 =
     (let l0 = [];
          l1 = (if accesoPublico childSet \<noteq> ''Ninguno''
                then l0 @ [''P'' @ [CHR 0xFA] @ ''blico (Cualquiera con enlace) - '' @
                           accesoPublico childSet]
                else l0);
          l2 = (if accesoDominio childSet \<noteq> ''Ninguno''
                then l1 @ [''Dominio ('' @ domain0 @ '') - '' @ accesoDominio childSet]
                else l1);
          l3 = foldl (\<lambda>l email. l @ [email @ '' - Editor'']) l2 (editores childSet);
          l4 = foldl (\<lambda>l email. l @ [email @ '' - Visualizador'']) l3
                 (visualizadores childSet)
      in l4)"

definition logDifferences ::
  "conjunto \<Rightarrow> conjunto \<Rightarrow> string \<Rightarrow> string \<Rightarrow> string \<Rightarrow> hoja \<Rightarrow> string \<Rightarrow> bitacora \<Rightarrow>
   hoja \<times> bitacora" where
  "logDifferences parentSet childSet path url type0 sheet domain0 Logger =
     (if differencesFound parentSet childSet then
        (let Logger1 = Logger @ [''-> Se encontraron diferencias de permisos en: '' @ path];
             lista = usersWithRole childSet domain0;
             userList = (if length lista > 0 then Array_join lista '', ''
                         else ''Permisos solo por herencia (pero con diferencias)'')
         in (sheet @ [[path, url, type0, userList]], Logger1))
      else (sheet, Logger))"

section \<open>Cfg\_Constantes.js\<close>

definition TIEMPO_MAXIMO_EJECUCION_MS :: int where
  "TIEMPO_MAXIMO_EJECUCION_MS = 20 * 60 * 1000"

definition LIMITE_FILAS_POR_HOJA_REPORTE :: int where
  "LIMITE_FILAS_POR_HOJA_REPORTE = 50000"

definition CABECERAS_REPORTE_TECNICO :: "string list" where
  "CABECERAS_REPORTE_TECNICO =
     [''Ruta Escaneada'', ''Enlace'', ''Tipo (Doc/Folder)'', ''Usuarios Encontrados (Roles)'']"

section \<open>API\_SalidaDrive.js\<close>

text \<open>
  The object \<open>estadoActual\<close>. \<open>idSheet\<close> is \<open>None\<close> when the property is
  \<open>undefined\<close> or \<open>null\<close>; the counters are JavaScript numbers holding integers.
\<close>

record estadoPaginacion =
  idSheet :: "string option"
  filaActual :: int
  ramaNombre :: string
  parteActual :: int
  idCarpetaRaiz :: string

text \<open>\<open>!estadoActual.idSheet\<close>: true of \<open>undefined\<close>, \<open>null\<close> and the empty string.\<close>

definition sinHoja :: "string option \<Rightarrow> bool" where
  "sinHoja v = (case v of None \<Rightarrow> True | Some t \<Rightarrow> t = [])"

text \<open>An integer in a template literal.\<close>

fun digitos :: "nat \<Rightarrow> string" where
  "digitos n =
     (if n < 10 then [char_of (48 + n)]
      else digitos (n div 10) @ [char_of (48 + n mod 10)])"

declare digitos.simps [simp del]

definition entero_a_texto :: "int \<Rightarrow> string" where
  "entero_a_texto i = (if i < 0 then ''-'' @ digitos (nat (- i)) else digitos (nat i))"

text \<open>
  A spreadsheet of the user's Drive: its id, its name, the rows of its first sheet, and
  the folder it was moved to (\<open>None\<close> while it lies in the root, where
  \<open>SpreadsheetApp.create\<close> puts it).
\<close>

record libro =
  libro_id :: string
  libro_nombre :: string
  libro_filas :: hoja
  libro_carpeta :: "string option"

record salidaDrive =
  libros :: "libro list"
  LoggerSalida :: bitacora

text \<open>
  What the platform answers during one call of \<open>volcarHallazgoAPaginacion\<close>:
  \<open>r_create\<close> is \<open>SpreadsheetApp.create\<close> (an exception, or the id of the new
  spreadsheet); \<open>r_cabeceras\<close> an exception of lines 40 to 45 (the header row and its
  format); \<open>r_moveTo\<close> an exception of lines 51 to 53; \<open>r_appendRow\<close> an exception
  of \<open>openById\<close>, \<open>getSheets\<close> or \<open>appendRow\<close> inside the \<open>try\<close>.
\<close>

record respuestas =
  r_create :: "error + string"
  r_cabeceras :: "error option"
  r_moveTo :: "error option"
  r_appendRow :: "error option"

text \<open>
  Lines 31 to 54. The result is the exception that left the block, if any, with
  \<open>estadoActual\<close> and the Drive as the block leaves them: the assignments made before
  an exception stay in the object.
\<close>

definition prepararParticion ::
  "respuestas \<Rightarrow> estadoPaginacion \<Rightarrow> salidaDrive \<Rightarrow> error option \<times> estadoPaginacion \<times> salidaDrive"
  where
  "prepararParticion r estadoActual w =
     (if sinHoja (idSheet estadoActual) \<or>
         filaActual estadoActual \<ge> LIMITE_FILAS_POR_HOJA_REPORTE
      then
        (let e1 = estadoActual\<lparr>parteActual := parteActual estadoActual + 1, filaActual := 1\<rparr>;
             nombreNuevoArchivo = ''Reporte - '' @ ramaNombre e1 @ '' (Parte '' @
                                  entero_a_texto (parteActual e1) @ '')''
         in case r_create r of
              Inl err \<Rightarrow> (Some err, e1, w)
            | Inr nuevoId \<Rightarrow>
                (let w1 = w\<lparr>libros := libros w @
                             [\<lparr>libro_id = nuevoId, libro_nombre = nombreNuevoArchivo,
                               libro_filas = [], libro_carpeta = None\<rparr>]\<rparr>
                 in case r_cabeceras r of
                      Some err \<Rightarrow> (Some err, e1, w1)
                    | None \<Rightarrow>
                        (let w2 = w\<lparr>libros := libros w @
                                     [\<lparr>libro_id = nuevoId, libro_nombre = nombreNuevoArchivo,
                                       libro_filas = [CABECERAS_REPORTE_TECNICO],
                                       libro_carpeta = None\<rparr>]\<rparr>;
                             e2 = e1\<lparr>idSheet := Some nuevoId, filaActual := 2\<rparr>
                         in case r_moveTo r of
                              Some err \<Rightarrow> (Some err, e2, w2)
                            | None \<Rightarrow>
                                (None, e2,
                                 w\<lparr>libros := libros w @
                                     [\<lparr>libro_id = nuevoId, libro_nombre = nombreNuevoArchivo,
                                       libro_filas = [CABECERAS_REPORTE_TECNICO],
                                       libro_carpeta = Some (idCarpetaRaiz e2)\<rparr>]\<rparr>))))
      else (None, estadoActual, w))"

text \<open>\<open>hojaDestino.appendRow(datosFila)\<close> on the spreadsheet with that id.\<close>

definition appendRow_en :: "string \<Rightarrow> string list \<Rightarrow> libro list \<Rightarrow> libro list" where
  "appendRow_en i datosFila ls =
     map (\<lambda>b. if libro_id b = i then b\<lparr>libro_filas := libro_filas b @ [datosFila]\<rparr> else b) ls"

definition textoIdSheet :: "string option \<Rightarrow> string" where
  "textoIdSheet v = (case v of None \<Rightarrow> ''undefined'' | Some t \<Rightarrow> t)"

definition mensajeDriverError :: "estadoPaginacion \<Rightarrow> error \<Rightarrow> string" where
  "mensajeDriverError estadoActual err =
     ''[DriverError] Fallo al insertar fila en la p'' @ [CHR 0xE1] @ ''gina '' @
     textoIdSheet (idSheet estadoActual) @ '' de rama '' @ ramaNombre estadoActual @ '': '' @
     message err"

text \<open>
  Lines 57 to 64. \<open>openById\<close> throws when no spreadsheet has the id; the message of
  that exception is the platform's.
\<close>

definition errorOpenById :: error where
  "errorOpenById =
     Error ''Unexpected error while getting the method or property openById on object SpreadsheetApp.''"

definition anexarHallazgo ::
  "respuestas \<Rightarrow> estadoPaginacion \<Rightarrow> string list \<Rightarrow> salidaDrive \<Rightarrow> estadoPaginacion \<times> salidaDrive"
  where
  "anexarHallazgo r estadoActual datosFila w =
     (case r_appendRow r of
        Some err \<Rightarrow>
          (estadoActual,
           w\<lparr>LoggerSalida := LoggerSalida w @ [mensajeDriverError estadoActual err]\<rparr>)
      | None \<Rightarrow>
          (case idSheet estadoActual of
             None \<Rightarrow>
               (estadoActual,
                w\<lparr>LoggerSalida := LoggerSalida w @
                     [mensajeDriverError estadoActual errorOpenById]\<rparr>)
           | Some i \<Rightarrow>
               if i \<in> set (map libro_id (libros w)) then
                 (estadoActual\<lparr>filaActual := filaActual estadoActual + 1\<rparr>,
                  w\<lparr>libros := appendRow_en i datosFila (libros w)\<rparr>)
               else
                 (estadoActual,
                  w\<lparr>LoggerSalida := LoggerSalida w @
                       [mensajeDriverError estadoActual errorOpenById]\<rparr>)))"

text \<open>
  The whole function: \<open>None\<close> in the first component when it returns (its value is
  the \<open>estadoActual\<close> of the second component, the object it was given), the
  exception when one leaves it.
\<close>

definition volcarHallazgoAPaginacion ::
  "respuestas \<Rightarrow> estadoPaginacion \<Rightarrow> string list \<Rightarrow> salidaDrive \<Rightarrow>
   error option \<times> estadoPaginacion \<times> salidaDrive" where
  "volcarHallazgoAPaginacion r estadoActual datosFila w =
     (case prepararParticion r estadoActual w of
        (Some err, e1, w1) \<Rightarrow> (Some err, e1, w1)
      | (None, e1, w1) \<Rightarrow>
          (let (e2, w2) = anexarHallazgo r e1 datosFila w1 in (None, e2, w2)))"

text \<open>
  A caller that writes one finding after another, threading the returned state, and
  stops at the first exception.
\<close>

fun volcarTodos ::
  "(respuestas \<times> string list) list \<Rightarrow> estadoPaginacion \<Rightarrow> salidaDrive \<Rightarrow>
   error option \<times> estadoPaginacion \<times> salidaDrive" where
  "volcarTodos [] e w = (None, e, w)"
| "volcarTodos ((r, datosFila) # resto) e w =
     (case volcarHallazgoAPaginacion r e datosFila w of
        (Some err, e1, w1) \<Rightarrow> (Some err, e1, w1)
      | (None, e1, w1) \<Rightarrow> volcarTodos resto e1 w1)"

section \<open>UI\_Menu.js: the queue and the Drive\<close>

text \<open>
  The fourth cell of a queue row holds a text. It is modelled by what \<open>JSON.parse\<close>
  makes of it: the object it decodes to, or the message of the \<open>SyntaxError\<close> it
  raises. \<open>JSON.stringify\<close> of a permission object is a text that decodes to that
  object again (its fields are strings and arrays of strings). Texts that are valid
  JSON of another shape are not written by the program and are left out.
\<close>

datatype celda = Texto_JSON conjunto | Texto_ilegible string

fun JSON_parse :: "celda \<Rightarrow> error + conjunto" where
  "JSON_parse (Texto_JSON c) = Inr c"
| "JSON_parse (Texto_ilegible m) = Inl (SyntaxError m)"

definition JSON_stringify :: "conjunto \<Rightarrow> celda" where
  "JSON_stringify c = Texto_JSON c"

text \<open>
  A row of the sheet \<open>Queue_STATE\<close> below its header, by the names
  \<open>continuarAuditoria\<close> gives the five cells.
\<close>

record filaCola =
  idNode :: string
  rutaArmada :: string
  urlVisita :: string
  cachePermisos :: celda
  banderaRaiz :: bool

text \<open>
  A file of a folder (with the two getters the loop calls), a subfolder (with three), and
  a folder. An iterator of the platform is the list of the items it yields and the
  exception that ends it early, if any (\<open>getFiles\<close> or \<open>getFolders\<close> itself throwing
  is the empty list with an exception).
\<close>

record documentoDrive =
  doc_permisos :: archivoDrive
  doc_getName :: string
  doc_getUrl :: string

record subcarpetaDrive =
  sub_getId :: string
  sub_getName :: string
  sub_getUrl :: string

record carpetaDrive =
  car_permisos :: archivoDrive
  car_getFiles :: "documentoDrive list \<times> error option"
  car_getFolders :: "subcarpetaDrive list \<times> error option"

text \<open>\<open>DriveApp.getFolderById\<close>.\<close>

type_synonym drive = "string \<Rightarrow> error + carpetaDrive"

text \<open>
  The three operations of the loop on the queue sheet, in a trace kept beside the state
  (it is not data of the program): \<open>Leer\<close> is the \<open>getValues\<close> of row 2,
  \<open>Encolar\<close> a row written below the last one by \<open>setValues\<close>, \<open>Borrar\<close> the
  \<open>deleteRow(2)\<close>, each with the row concerned.
\<close>

datatype evento = Leer filaCola | Encolar filaCola | Borrar filaCola

text \<open>
  What \<open>continuarAuditoria\<close> works on while its loop runs: the rows of the queue sheet
  below the header, the rows of the report sheet, the log, the alerts shown, the trace.
\<close>

record sesion =
  hojaDeCola :: "filaCola list"
  hojaReporte :: hoja
  registroLogger :: bitacora
  alertasUi :: "string list"
  traza :: "evento list"

text \<open>
  The calls of \<open>registrarDiferenciasPermisos\<close> in \<open>continuarAuditoria\<close> pass seven
  arguments: the sheet object is the sixth, the domain the seventh. The function has
  six parameters, so the sheet is bound to \<open>dominioOrganizacion\<close> and the domain is
  dropped. The text a template literal makes of a sheet object:
\<close>

definition hojaReporte_como_texto :: string where
  "hojaReporte_como_texto = ''Sheet''"

definition mensajeJSONCrash :: "filaCola \<Rightarrow> error \<Rightarrow> string" where
  "mensajeJSONCrash columnaMapeada e =
     ''JSON Crash parsing en cach'' @ [CHR 0xE9] @ '' fila ruta: '' @ rutaArmada columnaMapeada @
     '': Detalles JSON: '' @ message e"

definition mensajePuntoCiego :: "filaCola \<Rightarrow> error \<Rightarrow> string" where
  "mensajePuntoCiego f errores_api =
     ''Punto Ciego de Carpeta '' @ rutaArmada f @ '' (ID Cifrado: '' @ idNode f @
     ''). Fallo Inaccesible v'' @ [CHR 0xED] @ ''a API: '' @ error_toString errores_api"

definition filaFolderCiego :: "filaCola \<Rightarrow> error \<Rightarrow> string list" where
  "filaFolderCiego f errores_api =
     [rutaArmada f, urlVisita f, ''Folder Ciego'',
      ''ERROR API Carga: Restricci'' @ [CHR 0xF3] @
      ''n del propio Google sobre la ID oculta: '' @ message errores_api]"

definition filaAlertaLectura :: "string \<Rightarrow> string \<Rightarrow> error \<Rightarrow> string list" where
  "filaAlertaLectura senderoDocTexto enlaceDocSalida errorlecturadoc =
     [senderoDocTexto, enlaceDocSalida, ''Documento Unitario'',
      ''Alerta de Lectura en Permisolog'' @ [CHR 0xED] @ ''a: '' @ message errorlecturadoc]"

definition mensajeProblematica :: "filaCola \<Rightarrow> error \<Rightarrow> string" where
  "mensajeProblematica f errorCargaFolders =
     ''Problematica al tirar Folders Hijos de Root Folder '' @ rutaArmada f @ '': '' @
     message errorCargaFolders"

definition alertaPausa :: string where
  "alertaPausa =
     ''Pausa t'' @ [CHR 0xE1] @ ''ctica por L'' @ [CHR 0xED] @
     ''mite de Tiempo por CPU GSuite (Pasaron 20 minutos completos).'' @ [CHR 0x0A, CHR 0x0A] @
     ''Progreso indexado sin p'' @ [CHR 0xE9] @ ''rdidas. Presione opci'' @ [CHR 0xF3] @ ''n '' @
     [CHR 0x22] @ ''Continuar Auditor'' @ [CHR 0xED] @ ''a'' @ [CHR 0x22] @ '' desde el Men'' @
     [CHR 0xFA] @ '' para resumir extracci'' @ [CHR 0xF3] @ ''n.''"

definition alertaSinCola :: string where
  "alertaSinCola =
     ''Ausencia de tabla Cola ('' @ [CHR 0x22] @ ''Queue_STATE'' @ [CHR 0x22] @
     '' No detectada). Debes usar primero '' @ [CHR 0x22] @ ''Iniciar Auditor'' @ [CHR 0xED] @
     ''a de Permisos'' @ [CHR 0x22] @ ''.''"

definition alertaSinReporte :: string where
  "alertaSinReporte =
     ''Falta hoja gr'' @ [CHR 0xE1] @ ''fica Reportes de Salida ('' @ [CHR 0x22] @
     ''Reporte de Permisos'' @ [CHR 0x22] @ ''). Proceso parado urgemente.''"

definition mensajeCompletado :: string where
  "mensajeCompletado =
     ''Procesamiento completado y analizado en su totalidad del '' @ [CHR 0xE1] @ ''rbol.''"

definition alertaFinal :: string where
  "alertaFinal =
     [CHR 0xA1] @ ''Barrido y Auditor'' @ [CHR 0xED] @ ''a Arquitect'' @ [CHR 0xF3] @
     ''nica finalizada 100% de forma correcta con '' @ [CHR 0xE9] @ ''xito total!''"

section \<open>UI\_Menu.js: continuarAuditoria\<close>

text \<open>
  The body of the inner \<open>while\<close> of step 4 for one file: the report rows and the log
  before, and after. An exception of \<open>registrarDiferenciasPermisos\<close> is caught by the
  inner \<open>try\<close> and written to the report. A call that returns has changed nothing
  but the log: in the repository's scope there is no sheet it could have written to.
\<close>

definition revisarDocumento ::
  "conjunto \<Rightarrow> string \<Rightarrow> hoja \<times> bitacora \<Rightarrow> documentoDrive \<Rightarrow> hoja \<times> bitacora" where
  "revisarDocumento permisosEntidadLocal ruta acc documentoSingular =
     (let senderoDocTexto = ruta @ ''/'' @ doc_getName documentoSingular;
          enlaceDocSalida = doc_getUrl documentoSingular;
          permisosDelDocumento = obtenerConjuntoPermisos (doc_permisos documentoSingular);
          (r, Logger1) =
             registrarDiferenciasPermisos hojaReporte_global permisosEntidadLocal
               permisosDelDocumento senderoDocTexto enlaceDocSalida ''Documento Unitario''
               hojaReporte_como_texto (snd acc)
      in case r of
           Inl errorlecturadoc \<Rightarrow>
             (fst acc @ [filaAlertaLectura senderoDocTexto enlaceDocSalida errorlecturadoc],
              Logger1)
         | Inr g \<Rightarrow> (fst acc, Logger1))"

text \<open>Step 4: the files the iterator yields, then the \<open>catch\<close> of the outer \<open>try\<close>.\<close>

definition revisarDocumentos :: "filaCola \<Rightarrow> conjunto \<Rightarrow> carpetaDrive \<Rightarrow> sesion \<Rightarrow> sesion" where
  "revisarDocumentos f permisosEntidadLocal objetoCarpetaDrive s =
     (let (hr, lg) = foldl (revisarDocumento permisosEntidadLocal (rutaArmada f))
                           (hojaReporte s, registroLogger s)
                           (fst (car_getFiles objetoCarpetaDrive));
          lg1 = (case snd (car_getFiles objetoCarpetaDrive) of
                   None \<Rightarrow> lg
                 | Some errorCargaFolders \<Rightarrow> lg @ [mensajeProblematica f errorCargaFolders])
      in s\<lparr>hojaReporte := hr, registroLogger := lg1\<rparr>)"

text \<open>The array \<open>ramificacionesNuevasACola\<close> when the iterator of subfolders ends well.\<close>

definition ramificacionesNuevasACola :: "filaCola \<Rightarrow> conjunto \<Rightarrow> carpetaDrive \<Rightarrow> filaCola list"
  where
  "ramificacionesNuevasACola f permisosEntidadLocal objetoCarpetaDrive =
     map (\<lambda>subSubFolder.
            \<lparr> idNode = sub_getId subSubFolder,
              rutaArmada = rutaArmada f @ ''/'' @ sub_getName subSubFolder,
              urlVisita = sub_getUrl subSubFolder,
              cachePermisos = JSON_stringify permisosEntidadLocal,
              banderaRaiz = False \<rparr>)
         (fst (car_getFolders objetoCarpetaDrive))"

text \<open>
  Step 5. An exception of the iterator leaves the \<open>try\<close> before \<open>setValues\<close>, and the
  \<open>catch\<close> is empty: nothing is written, and the subfolders are not visited.
\<close>

definition encolarSubcarpetas :: "filaCola \<Rightarrow> conjunto \<Rightarrow> carpetaDrive \<Rightarrow> sesion \<Rightarrow> sesion" where
  "encolarSubcarpetas f permisosEntidadLocal objetoCarpetaDrive s =
     (case snd (car_getFolders objetoCarpetaDrive) of
        Some ejecucionFail \<Rightarrow> s
      | None \<Rightarrow>
          (let nuevas = ramificacionesNuevasACola f permisosEntidadLocal objetoCarpetaDrive
           in if length nuevas > 0
              then s\<lparr>hojaDeCola := hojaDeCola s @ nuevas,
                     traza := traza s @ map Encolar nuevas\<rparr>
              else s))"

text \<open>\<open>hojaDeCola.deleteRow(2)\<close>, for the row \<open>f\<close> that was read from row 2.\<close>

definition deleteRow2 :: "filaCola \<Rightarrow> sesion \<Rightarrow> sesion" where
  "deleteRow2 f s = s\<lparr>hojaDeCola := tl (hojaDeCola s), traza := traza s @ [Borrar f]\<rparr>"

text \<open>
  One pass through the body of the \<open>while\<close> below the deadline test (lines 226 to
  306), on a queue that has a row (the loop's guard). The first component is the
  exception that leaves \<open>continuarAuditoria\<close>, if any: the call of
  \<open>registrarDiferenciasPermisos\<close> for the folder is in no \<open>try\<close>.
\<close>

definition iteracion :: "drive \<Rightarrow> sesion \<Rightarrow> error option \<times> sesion" where
  "iteracion DriveApp s =
     (case hojaDeCola s of
        [] \<Rightarrow> (None, s)
      | columnaMapeada # resto \<Rightarrow>
          (let s1 = s\<lparr>traza := traza s @ [Leer columnaMapeada]\<rparr>
           in case JSON_parse (cachePermisos columnaMapeada) of
                Inl e \<Rightarrow>
                  (None,
                   deleteRow2 columnaMapeada
                     (s1\<lparr>registroLogger := registroLogger s1 @
                                              [mensajeJSONCrash columnaMapeada e]\<rparr>))
              | Inr permisosAlmacenadosJSON \<Rightarrow>
                  (case DriveApp (idNode columnaMapeada) of
                     Inl errores_api \<Rightarrow>
                       (None,
                        deleteRow2 columnaMapeada
                          (s1\<lparr>registroLogger := registroLogger s1 @
                                                   [mensajePuntoCiego columnaMapeada errores_api],
                              hojaReporte := hojaReporte s1 @
                                               [filaFolderCiego columnaMapeada errores_api]\<rparr>))
                   | Inr objetoCarpetaDrive \<Rightarrow>
                       (let permisosEntidadLocal =
                              obtenerConjuntoPermisos (car_permisos objetoCarpetaDrive);
                            (r, Logger1) =
                              (if \<not> banderaRaiz columnaMapeada then
                                 registrarDiferenciasPermisos hojaReporte_global
                                   permisosAlmacenadosJSON permisosEntidadLocal
                                   (rutaArmada columnaMapeada) (urlVisita columnaMapeada)
                                   ''Carpeta Plegable'' hojaReporte_como_texto
                                   (registroLogger s1)
                               else (Inr hojaReporte_global, registroLogger s1));
                            s3 = s1\<lparr>registroLogger := Logger1\<rparr>
                        in case r of
                             Inl err \<Rightarrow> (Some err, s3)
                           | Inr g \<Rightarrow>
                               (None,
                                deleteRow2 columnaMapeada
                                  (encolarSubcarpetas columnaMapeada permisosEntidadLocal
                                     objetoCarpetaDrive
                                     (revisarDocumentos columnaMapeada permisosEntidadLocal
                                        objetoCarpetaDrive s3)))))))"

text \<open>How a run of the loop ends. \<open>SinCombustible\<close> is the model's: the fuel ran out.\<close>

datatype resultado = Completada | Pausada | Abortada error | Rechazada | SinCombustible

text \<open>
  The \<open>while\<close> of step 2. \<open>reloj k\<close> is what the \<open>k\<close>-th evaluation of
  \<open>new Date().getTime()\<close> in the call gives (the first, numbered 0, is
  \<open>tiempoEmpezadoMS\<close>); the fuel bounds the number of passes.
\<close>

fun bucle :: "nat \<Rightarrow> drive \<Rightarrow> (nat \<Rightarrow> int) \<Rightarrow> int \<Rightarrow> nat \<Rightarrow> sesion \<Rightarrow> resultado \<times> sesion" where
  "bucle 0 DriveApp reloj tiempoEmpezadoMS k s = (SinCombustible, s)"
| "bucle (Suc n) DriveApp reloj tiempoEmpezadoMS k s =
     (if hojaDeCola s = [] then (Completada, s)
      else if reloj k - tiempoEmpezadoMS > TIEMPO_MAXIMO_EJECUCION_MS
      then (Pausada, s\<lparr>alertasUi := alertasUi s @ [alertaPausa]\<rparr>)
      else (case iteracion DriveApp s of
              (Some err, s1) \<Rightarrow> (Abortada err, s1)
            | (None, s1) \<Rightarrow> bucle n DriveApp reloj tiempoEmpezadoMS (Suc k) s1))"

text \<open>
  The active spreadsheet as \<open>continuarAuditoria\<close> finds and leaves it: each of the two
  sheets may be absent.
\<close>

record libroActivo =
  Queue_STATE :: "filaCola list option"
  Reporte_de_Permisos :: "hoja option"
  LoggerActivo :: bitacora
  alertasActivo :: "string list"

definition continuarAuditoria ::
  "nat \<Rightarrow> drive \<Rightarrow> (nat \<Rightarrow> int) \<Rightarrow> libroActivo \<Rightarrow> resultado \<times> libroActivo \<times> evento list" where
  "continuarAuditoria fuel DriveApp reloj ss =
     (case Queue_STATE ss of
        None \<Rightarrow> (Rechazada, ss\<lparr>alertasActivo := alertasActivo ss @ [alertaSinCola]\<rparr>, [])
      | Some filas \<Rightarrow>
          (case Reporte_de_Permisos ss of
             None \<Rightarrow> (Rechazada, ss\<lparr>alertasActivo := alertasActivo ss @ [alertaSinReporte]\<rparr>, [])
           | Some rep \<Rightarrow>
               (let (res, s1) =
                      bucle fuel DriveApp reloj (reloj 0) 1
                        \<lparr> hojaDeCola = filas, hojaReporte = rep,
                          registroLogger = LoggerActivo ss, alertasUi = alertasActivo ss,
                          traza = [] \<rparr>
                in if res = Completada then
                     (Completada,
                      \<lparr> Queue_STATE = None, Reporte_de_Permisos = Some (hojaReporte s1),
                        LoggerActivo = registroLogger s1 @
                                         [mensajeCompletado, ''Estado limpiado desde interfaz.''],
                        alertasActivo = alertasUi s1 @ [alertaFinal] \<rparr>,
                      traza s1)
                   else
                     (res,
                      \<lparr> Queue_STATE = Some (hojaDeCola s1),
                        Reporte_de_Permisos = Some (hojaReporte s1),
                        LoggerActivo = registroLogger s1, alertasActivo = alertasUi s1 \<rparr>,
                      traza s1))))"

text \<open>
  Step 5 of \<open>iniciarAuditoria\<close>: the one row the queue starts with, for the root folder.
\<close>

definition filaRaiz :: "string \<Rightarrow> string \<Rightarrow> string \<Rightarrow> archivoDrive \<Rightarrow> filaCola" where
  "filaRaiz idRaiz nombreDrive urlRaizDrive carpetaRaizDrive =
     \<lparr> idNode = idRaiz, rutaArmada = nombreDrive, urlVisita = urlRaizDrive,
       cachePermisos = JSON_stringify (obtenerConjuntoPermisos carpetaRaizDrive),
       banderaRaiz = True \<rparr>"

section \<open>Notions the statements use\<close>

text \<open>\<open>j\<close> passes of the loop body, each of which ran to its end.\<close>

fun pasadas :: "nat \<Rightarrow> drive \<Rightarrow> sesion \<Rightarrow> sesion option" where
  "pasadas 0 DriveApp s = Some s"
| "pasadas (Suc j) DriveApp s =
     (if hojaDeCola s = [] then None
      else case iteracion DriveApp s of
             (Some err, s1) \<Rightarrow> None
           | (None, s1) \<Rightarrow> pasadas j DriveApp s1)"

text \<open>
  The discipline of the queue, replayed on a trace from a queue \<open>q\<close> and the row under
  work \<open>enCurso\<close>: a row is read only when none is under work, and it is the first of the
  queue, where it stays; rows are added at the end, and only while a row is under work;
  the row removed is the one under work, still the first of the queue. The result is the
  queue and the row under work after the trace, \<open>None\<close> when the trace breaks the rule.
\<close>

fun disciplina ::
  "filaCola list \<Rightarrow> filaCola option \<Rightarrow> evento list \<Rightarrow> (filaCola list \<times> filaCola option) option"
  where
  "disciplina q enCurso [] = Some (q, enCurso)"
| "disciplina q enCurso (Leer f # t) =
     (case q of
        [] \<Rightarrow> None
      | g # resto \<Rightarrow> if enCurso = None \<and> g = f then disciplina q (Some f) t else None)"
| "disciplina q enCurso (Encolar b # t) =
     (case enCurso of None \<Rightarrow> None | Some a \<Rightarrow> disciplina (q @ [b]) enCurso t)"
| "disciplina q enCurso (Borrar f # t) =
     (case q of
        [] \<Rightarrow> None
      | g # resto \<Rightarrow> if enCurso = Some f \<and> g = f then disciplina resto None t else None)"

text \<open>The place of the first occurrence of an event in a trace.\<close>

fun posicion :: "evento \<Rightarrow> evento list \<Rightarrow> nat option" where
  "posicion e [] = None"
| "posicion e (x # t) =
     (if x = e then Some 0 else map_option Suc (posicion e t))"

text \<open>
  Both events occur in the trace, and the first occurrence of \<open>a\<close> comes before the
  first occurrence of \<open>b\<close>.
\<close>

definition antes :: "evento \<Rightarrow> evento \<Rightarrow> evento list \<Rightarrow> bool" where
  "antes a b t =
     (case posicion a t of
        None \<Rightarrow> False
      | Some i \<Rightarrow> (case posicion b t of None \<Rightarrow> False | Some j \<Rightarrow> i < j))"

text \<open>The rows a trace adds to the queue, and the rows it removes, each in order.\<close>

fun encolados :: "evento list \<Rightarrow> filaCola list" where
  "encolados [] = []"
| "encolados (Encolar b # t) = b # encolados t"
| "encolados (Leer f # t) = encolados t"
| "encolados (Borrar f # t) = encolados t"

fun borrados :: "evento list \<Rightarrow> filaCola list" where
  "borrados [] = []"
| "borrados (Borrar f # t) = f # borrados t"
| "borrados (Leer f # t) = borrados t"
| "borrados (Encolar b # t) = borrados t"



text \<open>The platform answers of a call hold no exception of lines 40 to 64.\<close>

definition sinFallos :: "respuestas \<Rightarrow> bool" where
  "sinFallos r = (r_cabeceras r = None \<and> r_moveTo r = None \<and> r_appendRow r = None)"

text \<open>The spreadsheet lines 39 to 53 leave in the Drive, before any finding is written.\<close>

definition libroNuevo :: "string \<Rightarrow> estadoPaginacion \<Rightarrow> libro" where
  "libroNuevo i estadoActual =
     \<lparr> libro_id = i,
       libro_nombre = ''Reporte - '' @ ramaNombre estadoActual @ '' (Parte '' @
                      entero_a_texto (parteActual estadoActual + 1) @ '')'',
       libro_filas = [CABECERAS_REPORTE_TECNICO],
       libro_carpeta = Some (idCarpetaRaiz estadoActual) \<rparr>"

text \<open>
  The rows a pass for the row \<open>f\<close> writes below the queue: those of step 5 when the
  cell decodes, the folder is found and its iterator of subfolders ends well, none
  otherwise.
\<close>

definition hijosDe :: "drive \<Rightarrow> filaCola \<Rightarrow> filaCola list" where
  "hijosDe DriveApp f =
     (case JSON_parse (cachePermisos f) of
        Inl e \<Rightarrow> []
      | Inr p \<Rightarrow>
          (case DriveApp (idNode f) of
             Inl e \<Rightarrow> []
           | Inr c \<Rightarrow>
               (case snd (car_getFolders c) of
                  Some e \<Rightarrow> []
                | None \<Rightarrow>
                    ramificacionesNuevasACola f (obtenerConjuntoPermisos (car_permisos c)) c)))"

text \<open>A permission object that names no user and no link sharing.\<close>

definition sinAccesoExplicito :: "conjunto \<Rightarrow> bool" where
  "sinAccesoExplicito c =
     (accesoPublico c = ''Ninguno'' \<and> accesoDominio c = ''Ninguno'' \<and>
      editores c = [] \<and> visualizadores c = [])"

section \<open>Concrete inputs\<close>

definition conjuntoVacio :: conjunto where
  "conjuntoVacio =
     \<lparr> editores = [], visualizadores = [], accesoPublico = ''Ninguno'',
       accesoDominio = ''Ninguno'' \<rparr>"

definition conjuntoAna :: conjunto where
  "conjuntoAna =
     \<lparr> editores = [''ana@x.com''], visualizadores = [], accesoPublico = ''Ninguno'',
       accesoDominio = ''Ninguno'' \<rparr>"

definition conjuntoAnaBeto :: conjunto where
  "conjuntoAnaBeto =
     \<lparr> editores = [''ana@x.com''], visualizadores = [''beto@x.com''],
       accesoPublico = ''Visualizador'', accesoDominio = ''Ninguno'' \<rparr>"

text \<open>A folder or file nobody but \<open>ana\<close> edits, and one that \<open>beto\<close> can also view.\<close>

definition archivoAna :: archivoDrive where
  "archivoAna =
     \<lparr> getEditors = Inr [''ana@x.com''], getViewers = Inr [],
       getSharingAccess = Inr PRIVATE, getSharingPermission = Inr NONE \<rparr>"

definition archivoAnaBeto :: archivoDrive where
  "archivoAnaBeto =
     \<lparr> getEditors = Inr [''ana@x.com''], getViewers = Inr [''beto@x.com'', ''ana@x.com''],
       getSharingAccess = Inr ANYONE_WITH_LINK, getSharingPermission = Inr VIEW \<rparr>"


text \<open>
  A drive: the root folder \<open>A\<close> (edited by \<open>ana\<close>) holds a file with the same
  access, a file \<open>beto\<close> can also view, and the folder \<open>B\<close>; \<open>B\<close> has the access
  of that second file and is empty. The queue is as \<open>iniciarAuditoria\<close> leaves it.
\<close>

definition carpetaA :: carpetaDrive where
  "carpetaA =
     \<lparr> car_permisos = archivoAna,
       car_getFiles =
         ([\<lparr> doc_permisos = archivoAna, doc_getName = ''igual.txt'', doc_getUrl = ''url-igual'' \<rparr>,
           \<lparr> doc_permisos = archivoAnaBeto, doc_getName = ''otro.txt'', doc_getUrl = ''url-otro'' \<rparr>],
          None),
       car_getFolders = ([\<lparr> sub_getId = ''B'', sub_getName = ''b'', sub_getUrl = ''url-B'' \<rparr>], None) \<rparr>"

definition carpetaB :: carpetaDrive where
  "carpetaB =
     \<lparr> car_permisos = archivoAnaBeto, car_getFiles = ([], None), car_getFolders = ([], None) \<rparr>"

definition carpetaC :: carpetaDrive where
  "carpetaC =
     \<lparr> car_permisos = archivoAna, car_getFiles = ([], None), car_getFolders = ([], None) \<rparr>"

definition driveAB :: drive where
  "driveAB i =
     (if i = ''A'' then Inr carpetaA
      else if i = ''B'' then Inr carpetaB
      else Inl (Error ''No item with the given ID could be found.''))"

text \<open>The same drive with a folder \<open>B\<close> that has the access of its parent.\<close>

definition driveAC :: drive where
  "driveAC i =
     (if i = ''A'' then Inr carpetaA
      else if i = ''B'' then Inr carpetaC
      else Inl (Error ''No item with the given ID could be found.''))"

definition filaA :: filaCola where
  "filaA = filaRaiz ''A'' ''Unidad'' ''url-A'' archivoAna"

definition filaB :: filaCola where
  "filaB =
     \<lparr> idNode = ''B'', rutaArmada = ''Unidad/b'', urlVisita = ''url-B'',
       cachePermisos = JSON_stringify conjuntoAna, banderaRaiz = False \<rparr>"

definition filaIlegible :: filaCola where
  "filaIlegible =
     \<lparr> idNode = ''Z'', rutaArmada = ''Unidad/z'', urlVisita = ''url-Z'',
       cachePermisos = Texto_ilegible ''Unexpected end of JSON input'', banderaRaiz = False \<rparr>"

definition sesionCon :: "filaCola list \<Rightarrow> sesion" where
  "sesionCon q =
     \<lparr> hojaDeCola = q, hojaReporte = [], registroLogger = [], alertasUi = [], traza = [] \<rparr>"

text \<open>
  The session after the pass for the root of the example drive: the file that differs
  has an alert row (the exception of \<open>registrarDiferenciasPermisos\<close>, caught), and the
  row of \<open>B\<close> has replaced the row of \<open>A\<close>.
\<close>

definition sesionTrasA :: sesion where
  "sesionTrasA =
     \<lparr> hojaDeCola = [filaB],
       hojaReporte =
         [filaAlertaLectura ''Unidad/otro.txt'' ''url-otro''
            (ReferenceError ''hojaReporte is not defined'')],
       registroLogger = [''-> Se encontraron diferencias de permisos en: Unidad/otro.txt''],
       alertasUi = [],
       traza = [Leer filaA, Encolar filaB, Borrar filaA] \<rparr>"

text \<open>A clock that stands still, and one that is past the budget at its second reading.\<close>

definition relojQuieto :: "nat \<Rightarrow> int" where
  "relojQuieto k = 0"

definition relojTarde :: "nat \<Rightarrow> int" where
  "relojTarde k = (if k < 2 then 0 else 1200001)"

text \<open>
  Inputs of the output pages: a partition state with no page yet, a Drive with no
  spreadsheet, platform answers without an exception that would give a new spreadsheet
  the id \<open>i\<close>, and a finding. \<open>escrituras n1 n2\<close> is a run of \<open>n1 + n2\<close> writes, the
  platform naming a new spreadsheet \<open>P1\<close> during the first \<open>n1\<close> and \<open>P2\<close> after.
\<close>

definition estadoInicial :: estadoPaginacion where
  "estadoInicial =
     \<lparr> idSheet = None, filaActual = 0, ramaNombre = ''Unidad'', parteActual = 0,
       idCarpetaRaiz = ''carpeta-maestra'' \<rparr>"

definition salidaVacia :: salidaDrive where
  "salidaVacia = \<lparr> libros = [], LoggerSalida = [] \<rparr>"

definition respuestaBuena :: "string \<Rightarrow> respuestas" where
  "respuestaBuena i =
     \<lparr> r_create = Inr i, r_cabeceras = None, r_moveTo = None, r_appendRow = None \<rparr>"

definition hallazgoEj :: "string list" where
  "hallazgoEj = [''Unidad/b'', ''url-B'', ''Carpeta Plegable'', ''ana@x.com - Editor'']"

definition escrituras :: "nat \<Rightarrow> nat \<Rightarrow> (respuestas \<times> string list) list" where
  "escrituras n1 n2 =
     replicate n1 (respuestaBuena ''P1'', hallazgoEj) @
     replicate n2 (respuestaBuena ''P2'', hallazgoEj)"

text \<open>Platform answers whose \<open>appendRow\<close> of the finding throws.\<close>

definition respuestaSinAnexar :: "string \<Rightarrow> respuestas" where
  "respuestaSinAnexar i =
     \<lparr> r_create = Inr i, r_cabeceras = None, r_moveTo = None,
       r_appendRow = Some (Error ''Service Spreadsheets failed'') \<rparr>"

section \<open>Lemmas\<close>

subsection \<open>Sets, flags and the rendered list\<close>


lemma set_foldl_Set_add: "set (foldl Set_add acc xs) = set acc \<union> set xs"
  by (induction xs arbitrary: acc) (auto simp: Set_add_def)

lemma distinct_foldl_Set_add: "distinct acc \<Longrightarrow> distinct (foldl Set_add acc xs)"
  by (induction xs arbitrary: acc) (auto simp: Set_add_def)

lemma set_Set_new: "set (Set_new xs) = set xs"
  by (simp add: Set_new_def set_foldl_Set_add)

lemma foldl_bandera:
  "foldl (\<lambda>bandera u. if p u then True else bandera) b xs = (b \<or> (\<exists>u \<in> set xs. p u))"
  by (induction xs arbitrary: b) auto

lemma foldl_push: "foldl (\<lambda>l x. l @ [g x]) l0 xs = l0 @ map g xs"
  by (induction xs arbitrary: l0) auto

lemma diferenciasDetectadas_iff:
  "diferenciasDetectadas P C =
     ((\<exists>u \<in> set (editores P) \<union> set (visualizadores P) \<union> set (editores C) \<union> set (visualizadores C).
         obtenerNivelAccesoUsuario u P \<noteq> obtenerNivelAccesoUsuario u C)
      \<or> accesoPublico P \<noteq> accesoPublico C \<or> accesoDominio P \<noteq> accesoDominio C)"
  unfolding diferenciasDetectadas_def Let_def foldl_bandera todosLosUsuarios_def set_Set_new
  by auto

lemma differencesFound_iff:
  "differencesFound P C =
     ((\<exists>u \<in> set (editores P) \<union> set (visualizadores P) \<union> set (editores C) \<union> set (visualizadores C).
         getAccess u P \<noteq> getAccess u C)
      \<or> accesoPublico P \<noteq> accesoPublico C \<or> accesoDominio P \<noteq> accesoDominio C)"
  unfolding differencesFound_def Let_def foldl_bandera set_Set_new
  by auto

lemma diferenciasDetectadas_sym: "diferenciasDetectadas P C = diferenciasDetectadas C P"
  unfolding diferenciasDetectadas_iff by auto

lemma differencesFound_sym: "differencesFound P C = differencesFound C P"
  unfolding differencesFound_iff by auto



lemma listaUsuariosRoles_eq:
  "listaUsuariosRoles C d =
     (if accesoPublico C \<noteq> ''Ninguno''
      then [''P'' @ [CHR 0xFA] @ ''blico (Cualquiera con enlace) - '' @ accesoPublico C] else []) @
     (if accesoDominio C \<noteq> ''Ninguno''
      then [''Dominio ('' @ d @ '') - '' @ accesoDominio C] else []) @
     map (\<lambda>correo. correo @ '' - Editor'') (editores C) @
     map (\<lambda>correo. correo @ '' - Visualizador'') (visualizadores C)"
  by (simp add: listaUsuariosRoles_def Let_def foldl_push)

lemma Array_join_snoc_Nil: "y \<noteq> [] \<Longrightarrow> Array_join (xs @ [y]) sep \<noteq> []"
  by (induction xs sep rule: Array_join.induct) auto

lemma Array_join_last: "y \<noteq> [] \<Longrightarrow> last (Array_join (xs @ [y]) sep) = last y"
proof (induction xs sep rule: Array_join.induct)
  case (3 x z zs sep)
  have "Array_join ((z # zs) @ [y]) sep \<noteq> []" using 3(2) by (rule Array_join_snoc_Nil)
  then show ?case using 3 by simp
qed auto

lemma Array_join_hd: "\<exists>r. Array_join (x # xs) sep = x @ r"
  by (cases xs) auto

subsection \<open>The fixed sentence\<close>



lemma usuariosTexto_sentinel:
  "(usuariosTexto C d = soloPorHerencia) = sinAccesoExplicito C"
proof (cases "sinAccesoExplicito C")
  case True
  then show ?thesis
    by (simp add: usuariosTexto_def listaUsuariosRoles_eq sinAccesoExplicito_def)
next
  case False
  let ?l = "listaUsuariosRoles C d"
  have ne: "?l \<noteq> []" using False
    by (auto simp: listaUsuariosRoles_eq sinAccesoExplicito_def)
  have "Array_join ?l '', '' \<noteq> soloPorHerencia"
  proof (cases "visualizadores C = []")
    case vE: True
    show ?thesis
    proof (cases "editores C = []")
      case eE: True
      show ?thesis
      proof (cases "accesoPublico C = ''Ninguno''")
        case True
        with vE eE False have "accesoDominio C \<noteq> ''Ninguno''"
          by (simp add: sinAccesoExplicito_def)
        with True vE eE show ?thesis
          by (simp add: listaUsuariosRoles_eq soloPorHerencia_def)
      next
        case False
        define x where "x = ''P'' @ [CHR 0xFA] @ ''blico (Cualquiera con enlace) - '' @ accesoPublico C"
        have "\<exists>rest. ?l = x # rest" using False by (simp add: listaUsuariosRoles_eq x_def)
        then obtain rest where l: "?l = x # rest" by blast
        obtain r where "Array_join (x # rest) '', '' = x @ r" using Array_join_hd by blast
        then have "hd (tl (Array_join ?l '', '')) = CHR 0xFA" unfolding l by (simp add: x_def)
        moreover have "hd (tl soloPorHerencia) = CHR ''e''" by (simp add: soloPorHerencia_def)
        ultimately show ?thesis by auto
      qed
    next
      case False
      then obtain xs y where "editores C = xs @ [y]" by (metis rev_exhaust)
      with vE have "\<exists>zs. ?l = zs @ [y @ '' - Editor'']"
        by (simp add: listaUsuariosRoles_eq)
      then obtain zs where "?l = zs @ [y @ '' - Editor'']" by blast
      then have "last (Array_join ?l '', '') = CHR ''r''"
        using Array_join_last[of "y @ '' - Editor''" zs "'', ''"] by simp
      moreover have "last soloPorHerencia = CHR '')''" by (simp add: soloPorHerencia_def)
      ultimately show ?thesis by auto
    qed
  next
    case False
    then obtain xs y where "visualizadores C = xs @ [y]" by (metis rev_exhaust)
    then have "\<exists>zs. ?l = zs @ [y @ '' - Visualizador'']"
      by (simp add: listaUsuariosRoles_eq)
    then obtain zs where "?l = zs @ [y @ '' - Visualizador'']" by blast
    then have "last (Array_join ?l '', '') = CHR ''r''"
      using Array_join_last[of "y @ '' - Visualizador''" zs "'', ''"] by simp
    moreover have "last soloPorHerencia = CHR '')''" by (simp add: soloPorHerencia_def)
    ultimately show ?thesis by auto
  qed
  with ne False show ?thesis by (simp add: usuariosTexto_def Let_def)
qed

subsection \<open>What a pass of the loop does to the queue and the trace\<close>


lemma revisarDocumentos_frame:
  "hojaDeCola (revisarDocumentos f p c s) = hojaDeCola s"
  "traza (revisarDocumentos f p c s) = traza s"
  "alertasUi (revisarDocumentos f p c s) = alertasUi s"
  by (simp_all add: revisarDocumentos_def Let_def split: prod.splits)

lemma encolarSubcarpetas_cola:
  "hojaDeCola (encolarSubcarpetas f p c s) =
     hojaDeCola s @ (case snd (car_getFolders c) of Some e \<Rightarrow> [] | None \<Rightarrow> ramificacionesNuevasACola f p c)"
  by (simp add: encolarSubcarpetas_def Let_def split: option.splits)

lemma encolarSubcarpetas_traza:
  "traza (encolarSubcarpetas f p c s) =
     traza s @ map Encolar (case snd (car_getFolders c) of Some e \<Rightarrow> [] | None \<Rightarrow> ramificacionesNuevasACola f p c)"
  by (simp add: encolarSubcarpetas_def Let_def split: option.splits)

lemma encolarSubcarpetas_frame:
  "hojaReporte (encolarSubcarpetas f p c s) = hojaReporte s"
  "registroLogger (encolarSubcarpetas f p c s) = registroLogger s"
  "alertasUi (encolarSubcarpetas f p c s) = alertasUi s"
  by (simp_all add: encolarSubcarpetas_def Let_def split: option.splits)

lemma iteracion_completa:
  assumes "hojaDeCola s = f # resto" and "iteracion D s = (None, s1)"
  shows "hojaDeCola s1 = resto @ hijosDe D f"
    and "traza s1 = traza s @ Leer f # map Encolar (hijosDe D f) @ [Borrar f]"
    and "alertasUi s1 = alertasUi s"
  using assms
  by (auto simp: iteracion_def hijosDe_def deleteRow2_def Let_def revisarDocumentos_frame
        encolarSubcarpetas_cola encolarSubcarpetas_traza encolarSubcarpetas_frame
      split: sum.splits prod.splits option.splits if_splits)

lemma iteracion_abortada:
  assumes "hojaDeCola s = f # resto" and "iteracion D s = (Some err, s1)"
  shows "hojaDeCola s1 = hojaDeCola s"
    and "hojaReporte s1 = hojaReporte s"
    and "traza s1 = traza s @ [Leer f]"
    and "alertasUi s1 = alertasUi s"
    and "err = ReferenceError ''hojaReporte is not defined''"
  using assms
  by (auto simp: iteracion_def deleteRow2_def Let_def registrarDiferenciasPermisos_def hojaReporte_global_def
      split: sum.splits prod.splits option.splits if_splits)

subsection \<open>The permission model and the comparison\<close>


lemma registrar_sin_diferencias:
  "(fst (registrarDiferenciasPermisos g P C ruta url tipo d L) = Inr g) = (\<not> diferenciasDetectadas P C)"
  by (cases g) (auto simp: registrarDiferenciasPermisos_def Let_def)

lemma logDifferences_sin_diferencias:
  "(fst (logDifferences P C path url ty sheet d L) = sheet) = (\<not> differencesFound P C)"
  by (auto simp: logDifferences_def Let_def)




lemma obtener_archivoAna: "obtenerConjuntoPermisos archivoAna = conjuntoAna"
  by (simp add: obtenerConjuntoPermisos_def archivoAna_def conjuntoAna_def Set_add_def
        accesosDeEnlace_def Let_def)

lemma obtener_archivoAnaBeto: "obtenerConjuntoPermisos archivoAnaBeto = conjuntoAnaBeto"
  by (simp add: obtenerConjuntoPermisos_def archivoAnaBeto_def conjuntoAnaBeto_def Set_add_def
        accesosDeEnlace_def Let_def)

lemma diferencias_Ana_AnaBeto: "diferenciasDetectadas conjuntoAna conjuntoAnaBeto"
  by (simp add: diferenciasDetectadas_def conjuntoAna_def conjuntoAnaBeto_def)

lemma sin_diferencias_Ana: "\<not> diferenciasDetectadas conjuntoAna conjuntoAna"
  by (simp add: diferenciasDetectadas_def conjuntoAna_def todosLosUsuarios_def Set_new_def
        Set_add_def obtenerNivelAccesoUsuario_def)





text \<open>
  C10. The flag is the same for a pair of permission objects and for the swapped pair, in
  \<open>registrarDiferenciasPermisos\<close> and in \<open>logDifferences\<close>; so the one call leaves the
  sheet binding (the sheet) as it was exactly when the swapped call does, whatever the
  other arguments are.
\<close>
theorem C10_deteccion_simetrica:
  "diferenciasDetectadas P C = diferenciasDetectadas C P \<and>
   differencesFound P C = differencesFound C P \<and>
   ((fst (registrarDiferenciasPermisos g P C ruta url tipo d L) = Inr g) =
    (fst (registrarDiferenciasPermisos g C P ruta' url' tipo' d' L') = Inr g)) \<and>
   ((fst (logDifferences P C ruta url tipo sheet d L) = sheet) =
    (fst (logDifferences C P ruta' url' tipo' sheet d' L') = sheet))"
  unfolding registrar_sin_diferencias logDifferences_sin_diferencias
  using diferenciasDetectadas_sym[of P C] differencesFound_sym[of P C] by simp

text \<open>An instance: a pair that differs, in both orders, and a pair that does not.\<close>

theorem C10_witness:
  "diferenciasDetectadas conjuntoAna conjuntoAnaBeto \<and>
   diferenciasDetectadas conjuntoAnaBeto conjuntoAna \<and>
   \<not> diferenciasDetectadas conjuntoAna conjuntoAna \<and>
   differencesFound conjuntoAnaBeto conjuntoAna"
proof -
  have "diferenciasDetectadas conjuntoAna conjuntoAnaBeto"
    by (rule diferencias_Ana_AnaBeto)
  moreover have "\<not> diferenciasDetectadas conjuntoAna conjuntoAna"
    by (rule sin_diferencias_Ana)
  moreover have "differencesFound conjuntoAna conjuntoAnaBeto"
    by (simp add: differencesFound_def conjuntoAna_def conjuntoAnaBeto_def)
  ultimately show ?thesis
    using C10_deteccion_simetrica[of conjuntoAna conjuntoAnaBeto] by simp
qed

text \<open>
  C7. The array joined into the text of a finding is: the public entry when the child's
  public level is not \<open>Ninguno\<close>, then the domain entry when its domain level is not
  \<open>Ninguno\<close>, then one entry per editor and one per viewer, in the child's order, each
  ending in its level. The text is the fixed sentence \<open>soloPorHerencia\<close> when the child
  names no user and no link sharing, and the joined array otherwise; it equals that
  sentence in no other case. This text is the fourth cell of the row handed to
  \<open>appendRow\<close> when a difference was detected (shown for a scope that binds
  \<open>hojaReporte\<close>; what happens in the repository's scope is C1).
\<close>
theorem C7_texto_del_hallazgo:
  "listaUsuariosRoles C d =
     (if accesoPublico C \<noteq> ''Ninguno''
      then [''P'' @ [CHR 0xFA] @ ''blico (Cualquiera con enlace) - '' @ accesoPublico C] else []) @
     (if accesoDominio C \<noteq> ''Ninguno''
      then [''Dominio ('' @ d @ '') - '' @ accesoDominio C] else []) @
     map (\<lambda>correo. correo @ '' - Editor'') (editores C) @
     map (\<lambda>correo. correo @ '' - Visualizador'') (visualizadores C) \<and>
   usuariosTexto C d =
     (if sinAccesoExplicito C then soloPorHerencia
      else Array_join (listaUsuariosRoles C d) '', '') \<and>
   (usuariosTexto C d = soloPorHerencia) = sinAccesoExplicito C \<and>
   (diferenciasDetectadas P C \<longrightarrow>
      fst (registrarDiferenciasPermisos (Some h) P C ruta url tipo d L) =
        Inr (Some (h @ [[ruta, url, tipo, usuariosTexto C d]])))"
proof -
  have "usuariosTexto C d =
     (if sinAccesoExplicito C then soloPorHerencia
      else Array_join (listaUsuariosRoles C d) '', '')"
    using usuariosTexto_sentinel[of C d]
    by (auto simp: usuariosTexto_def Let_def)
  then show ?thesis
    using listaUsuariosRoles_eq[of C d] usuariosTexto_sentinel[of C d]
    by (simp add: registrarDiferenciasPermisos_def Let_def)
qed

text \<open>An instance: a child with a public level, an editor and a viewer; and the empty child.\<close>

theorem C7_witness:
  "usuariosTexto conjuntoAnaBeto ''x.com'' =
     ''P'' @ [CHR 0xFA] @ ''blico (Cualquiera con enlace) - Visualizador, ana@x.com - Editor, beto@x.com - Visualizador'' \<and>
   usuariosTexto conjuntoVacio ''x.com'' = soloPorHerencia \<and>
   fst (registrarDiferenciasPermisos (Some []) conjuntoAna conjuntoAnaBeto ''r'' ''u'' ''t'' ''x.com'' []) =
     Inr (Some [[''r'', ''u'', ''t'', usuariosTexto conjuntoAnaBeto ''x.com'']])"
proof -
  have d: "diferenciasDetectadas conjuntoAna conjuntoAnaBeto"
    by (rule diferencias_Ana_AnaBeto)
  have a: "\<not> sinAccesoExplicito conjuntoAnaBeto" "sinAccesoExplicito conjuntoVacio"
    by (simp_all add: sinAccesoExplicito_def conjuntoAnaBeto_def conjuntoVacio_def)
  have l: "accesoPublico conjuntoAnaBeto = ''Visualizador''" "accesoDominio conjuntoAnaBeto = ''Ninguno''"
      "editores conjuntoAnaBeto = [''ana@x.com'']" "visualizadores conjuntoAnaBeto = [''beto@x.com'']"
    by (simp_all add: conjuntoAnaBeto_def)
  from C7_texto_del_hallazgo[of conjuntoAnaBeto "''x.com''" conjuntoAna "[]" "''r''" "''u''" "''t''" "[]"]
       C7_texto_del_hallazgo[of conjuntoVacio "''x.com''" conjuntoAna "[]" "''r''" "''u''" "''t''" "[]"]
       d a l
  show ?thesis by simp
qed

text \<open>
  C1. In the repository's global scope a detected difference does not add a row:
  \<open>registrarDiferenciasPermisos\<close> throws a \<open>ReferenceError\<close> at its last statement.
  For the folder \<open>B\<close>, whose access differs from what its parent had, the pass of
  \<open>continuarAuditoria\<close> is left by that exception, the report has no row for \<open>B\<close> and
  the row of \<open>B\<close> stays in the queue.
\<close>
theorem C1_registrar_lanza_ReferenceError:
  "diferenciasDetectadas conjuntoAna conjuntoAnaBeto \<and>
   registrarDiferenciasPermisos hojaReporte_global conjuntoAna conjuntoAnaBeto
       ''Unidad/b'' ''url-B'' ''Carpeta Plegable'' hojaReporte_como_texto [] =
     (Inl (ReferenceError ''hojaReporte is not defined''),
      [''-> Se encontraron diferencias de permisos en: Unidad/b'']) \<and>
   fst (iteracion driveAB (sesionCon [filaB])) = Some (ReferenceError ''hojaReporte is not defined'') \<and>
   hojaReporte (snd (iteracion driveAB (sesionCon [filaB]))) = [] \<and>
   hojaDeCola (snd (iteracion driveAB (sesionCon [filaB]))) = [filaB]"
proof -
  have d: "diferenciasDetectadas conjuntoAna conjuntoAnaBeto"
    by (rule diferencias_Ana_AnaBeto)
  have p: "obtenerConjuntoPermisos archivoAnaBeto = conjuntoAnaBeto"
    by (rule obtener_archivoAnaBeto)
  have r: "registrarDiferenciasPermisos hojaReporte_global conjuntoAna conjuntoAnaBeto
       ''Unidad/b'' ''url-B'' ''Carpeta Plegable'' hojaReporte_como_texto [] =
     (Inl (ReferenceError ''hojaReporte is not defined''),
      [''-> Se encontraron diferencias de permisos en: Unidad/b''])"
    using d by (simp add: registrarDiferenciasPermisos_def hojaReporte_global_def Let_def)
  have i: "iteracion driveAB (sesionCon [filaB]) =
     (Some (ReferenceError ''hojaReporte is not defined''),
      (sesionCon [filaB])\<lparr>traza := [Leer filaB],
         registroLogger := [''-> Se encontraron diferencias de permisos en: Unidad/b'']\<rparr>)"
    using r by (simp add: iteracion_def sesionCon_def filaB_def driveAB_def carpetaB_def p
          JSON_stringify_def Let_def)
  show ?thesis using d r i by (simp add: sesionCon_def)
qed

text \<open>The same input, read off the theorem: the call does not leave the binding as it was.\<close>

theorem C1_witness:
  "fst (registrarDiferenciasPermisos hojaReporte_global conjuntoAna conjuntoAnaBeto
          ''Unidad/b'' ''url-B'' ''Carpeta Plegable'' hojaReporte_como_texto []) =
     Inl (ReferenceError ''hojaReporte is not defined'') \<and>
   hojaReporte (snd (iteracion driveAB (sesionCon [filaB]))) = []"
  using C1_registrar_lanza_ReferenceError by simp

subsection \<open>Runs of the loop and the discipline of the queue\<close>


lemma disciplina_append:
  "disciplina q c (t1 @ t2) =
     (case disciplina q c t1 of None \<Rightarrow> None | Some (q1, c1) \<Rightarrow> disciplina q1 c1 t2)"
  by (induction q c t1 rule: disciplina.induct) (auto split: list.splits option.splits)

lemma disciplina_Encolar:
  "disciplina q (Some a) (map Encolar hs @ t) = disciplina (q @ hs) (Some a) t"
  by (induction hs arbitrary: q) auto

lemma disciplina_pasada:
  "disciplina (f # resto) None (Leer f # map Encolar hs @ [Borrar f]) = Some (resto @ hs, None)"
  by (simp add: disciplina_Encolar)

lemma disciplina_fifo:
  "disciplina q c t = Some (q1, c1) \<Longrightarrow> q @ encolados t = borrados t @ q1"
  by (induction q c t arbitrary: q1 c1 rule: disciplina.induct)
     (auto split: list.splits option.splits if_splits)

lemma iteracion_alertas: "alertasUi (snd (iteracion D s)) = alertasUi s"
proof (cases "hojaDeCola s")
  case Nil
  then show ?thesis by (simp add: iteracion_def)
next
  case (Cons f resto)
  obtain r s1 where it: "iteracion D s = (r, s1)" by (cases "iteracion D s")
  then show ?thesis using Cons iteracion_completa(3)[of s f resto D s1]
      iteracion_abortada(4)[of s f resto D _ s1]
    by (cases r) auto
qed

lemma pasadas_disciplina:
  "pasadas j D s = Some s1 \<Longrightarrow>
     \<exists>t. traza s1 = traza s @ t \<and> disciplina (hojaDeCola s) None t = Some (hojaDeCola s1, None)"
proof (induction j arbitrary: s)
  case 0
  then show ?case by simp
next
  case (Suc j)
  from Suc.prems obtain f resto where q: "hojaDeCola s = f # resto"
    by (cases "hojaDeCola s") (auto split: if_splits)
  from Suc.prems q obtain s2 where it: "iteracion D s = (None, s2)" and rest: "pasadas j D s2 = Some s1"
    by (auto split: prod.splits option.splits)
  from Suc.IH[OF rest] obtain t where
    t: "traza s1 = traza s2 @ t" "disciplina (hojaDeCola s2) None t = Some (hojaDeCola s1, None)"
    by blast
  let ?p = "Leer f # map Encolar (hijosDe D f) @ [Borrar f]"
  have "traza s1 = traza s @ (?p @ t)"
    using t(1) iteracion_completa(2)[OF q it] by simp
  moreover have "disciplina (hojaDeCola s) None (?p @ t) = Some (hojaDeCola s1, None)"
    unfolding q disciplina_append disciplina_pasada
    using t(2) iteracion_completa(1)[OF q it] by simp
  ultimately show ?case by blast
qed

lemma bucle_pausada:
  "bucle n D reloj t0 k s = (Pausada, s1) \<Longrightarrow>
     \<exists>j s2. pasadas j D s = Some s2 \<and> hojaDeCola s2 \<noteq> [] \<and>
            s1 = s2\<lparr>alertasUi := alertasUi s2 @ [alertaPausa]\<rparr>"
proof (induction n arbitrary: k s)
  case 0
  then show ?case by simp
next
  case (Suc n)
  show ?case
  proof (cases "hojaDeCola s = []")
    case True
    with Suc.prems show ?thesis by simp
  next
    case ne: False
    show ?thesis
    proof (cases "reloj k - t0 > TIEMPO_MAXIMO_EJECUCION_MS")
      case True
      with Suc.prems ne have "s1 = s\<lparr>alertasUi := alertasUi s @ [alertaPausa]\<rparr>" by simp
      with ne have "pasadas 0 D s = Some s \<and> hojaDeCola s \<noteq> [] \<and>
            s1 = s\<lparr>alertasUi := alertasUi s @ [alertaPausa]\<rparr>" by simp
      then show ?thesis by blast
    next
      case False
      with Suc.prems ne obtain s2 where it: "iteracion D s = (None, s2)"
        and rest: "bucle n D reloj t0 (Suc k) s2 = (Pausada, s1)"
        by (auto split: prod.splits option.splits)
      from Suc.IH[OF rest] obtain j s3 where
        j: "pasadas j D s2 = Some s3" "hojaDeCola s3 \<noteq> []"
           "s1 = s3\<lparr>alertasUi := alertasUi s3 @ [alertaPausa]\<rparr>"
        by blast
      have "pasadas (Suc j) D s = Some s3" using ne it j(1) by simp
      with j(2,3) show ?thesis by blast
    qed
  qed
qed

lemma bucle_disciplina:
  "bucle n D reloj t0 k s = (r, s1) \<Longrightarrow>
     \<exists>t c. traza s1 = traza s @ t \<and>
           disciplina (hojaDeCola s) None t = Some (hojaDeCola s1, c) \<and>
           (c = None \<or> (\<exists>e. r = Abortada e))"
proof (induction n arbitrary: k s)
  case 0
  then show ?case by auto
next
  case (Suc n)
  show ?case
  proof (cases "hojaDeCola s = [] \<or> reloj k - t0 > TIEMPO_MAXIMO_EJECUCION_MS")
    case True
    with Suc.prems have "traza s1 = traza s @ [] \<and> hojaDeCola s1 = hojaDeCola s"
      by (auto split: if_splits)
    then have "traza s1 = traza s @ [] \<and>
           disciplina (hojaDeCola s) None [] = Some (hojaDeCola s1, None)" by simp
    then show ?thesis by blast
  next
    case False
    then obtain f resto where q: "hojaDeCola s = f # resto" by (cases "hojaDeCola s") auto
    obtain x s2 where it: "iteracion D s = (x, s2)" by (cases "iteracion D s")
    show ?thesis
    proof (cases x)
      case None
      with Suc.prems False it have rest: "bucle n D reloj t0 (Suc k) s2 = (r, s1)" by simp
      from Suc.IH[OF rest] obtain t c where
        t: "traza s1 = traza s2 @ t" "disciplina (hojaDeCola s2) None t = Some (hojaDeCola s1, c)"
           "c = None \<or> (\<exists>e. r = Abortada e)" by blast
      from it None have it': "iteracion D s = (None, s2)" by simp
      let ?p = "Leer f # map Encolar (hijosDe D f) @ [Borrar f]"
      have "traza s1 = traza s @ (?p @ t)"
        using t(1) iteracion_completa(2)[OF q it'] by simp
      moreover have "disciplina (hojaDeCola s) None (?p @ t) = Some (hojaDeCola s1, c)"
        unfolding q disciplina_append disciplina_pasada
        using t(2) iteracion_completa(1)[OF q it'] by simp
      ultimately show ?thesis using t(3) by blast
    next
      case (Some err)
      with Suc.prems False it have r: "r = Abortada err" "s1 = s2" by auto
      from it Some have it': "iteracion D s = (Some err, s2)" by simp
      have "traza s1 = traza s @ [Leer f]" "hojaDeCola s1 = hojaDeCola s"
        using iteracion_abortada(1,3)[OF q it'] r by auto
      then have "traza s1 = traza s @ [Leer f] \<and>
           disciplina (hojaDeCola s) None [Leer f] = Some (hojaDeCola s1, Some f)"
        using q by simp
      with r show ?thesis by blast
    qed
  qed
qed

subsection \<open>Pause, undecodable rows, order of the traversal\<close>


lemma bucle_paso:
  "hojaDeCola s \<noteq> [] \<Longrightarrow> \<not> reloj k - t0 > TIEMPO_MAXIMO_EJECUCION_MS \<Longrightarrow>
   iteracion D s = (None, s1) \<Longrightarrow>
   bucle (Suc n) D reloj t0 k s = bucle n D reloj t0 (Suc k) s1"
  by simp

lemma bucle_fin: "hojaDeCola s = [] \<Longrightarrow> bucle (Suc n) D reloj t0 k s = (Completada, s)"
  by simp

lemma relojQuieto_a_tiempo:
  "\<not> relojQuieto k - 0 > TIEMPO_MAXIMO_EJECUCION_MS"
  "\<not> TIEMPO_MAXIMO_EJECUCION_MS < relojQuieto k"
  by (simp_all add: relojQuieto_def TIEMPO_MAXIMO_EJECUCION_MS_def)

lemma pasada_A: "iteracion driveAC (sesionCon [filaA]) = (None, sesionTrasA)"
  by (simp add: iteracion_def sesionCon_def sesionTrasA_def filaA_def filaB_def filaRaiz_def
        driveAC_def carpetaA_def JSON_stringify_def obtener_archivoAna obtener_archivoAnaBeto
        Let_def revisarDocumentos_def revisarDocumento_def encolarSubcarpetas_def
        ramificacionesNuevasACola_def deleteRow2_def registrarDiferenciasPermisos_def
        hojaReporte_global_def diferencias_Ana_AnaBeto sin_diferencias_Ana)

lemma pasada_B:
  "iteracion driveAC (s\<lparr>hojaDeCola := [filaB]\<rparr>) =
     (None, s\<lparr>hojaDeCola := [], traza := traza s @ [Leer filaB, Borrar filaB]\<rparr>)"
  by (simp add: iteracion_def filaB_def driveAC_def
        carpetaC_def JSON_stringify_def obtener_archivoAna Let_def
        revisarDocumentos_def encolarSubcarpetas_def
        ramificacionesNuevasACola_def deleteRow2_def registrarDiferenciasPermisos_def
        hojaReporte_global_def sin_diferencias_Ana)

lemma pasada_B_tras_A:
  "iteracion driveAC sesionTrasA =
     (None, sesionTrasA\<lparr>hojaDeCola := [],
              traza := [Leer filaA, Encolar filaB, Borrar filaA, Leer filaB, Borrar filaB]\<rparr>)"
  using pasada_B[of sesionTrasA] by (simp add: sesionTrasA_def)

lemma bucle_AC:
  "bucle 3 driveAC relojQuieto 0 1 (sesionCon [filaA]) =
     (Completada,
      sesionTrasA\<lparr>hojaDeCola := [],
        traza := [Leer filaA, Encolar filaB, Borrar filaA, Leer filaB, Borrar filaB]\<rparr>)"
proof -
  let ?fin = "sesionTrasA\<lparr>hojaDeCola := [],
        traza := [Leer filaA, Encolar filaB, Borrar filaA, Leer filaB, Borrar filaB]\<rparr>"
  have "bucle (Suc (Suc (Suc 0))) driveAC relojQuieto 0 (Suc 0) (sesionCon [filaA]) =
        bucle (Suc (Suc 0)) driveAC relojQuieto 0 (Suc (Suc 0)) sesionTrasA"
    by (rule bucle_paso) (simp_all add: sesionCon_def relojQuieto_a_tiempo pasada_A[unfolded sesionCon_def])
  also have "\<dots> = bucle (Suc 0) driveAC relojQuieto 0 (Suc (Suc (Suc 0))) ?fin"
    by (rule bucle_paso) (simp_all add: relojQuieto_a_tiempo pasada_B_tras_A, simp add: sesionTrasA_def)
  also have "\<dots> = (Completada, ?fin)"
    by (rule bucle_fin) simp
  finally show ?thesis by (simp add: numeral_3_eq_3)
qed

text \<open>
  C3. When the test at the top of the loop finds the budget exceeded while the queue has
  a row, the call ends paused and nothing but the alert is changed: the queue, its first
  row included, the report, the log and the trace are what they were. Whenever a run ends
  paused, its state is the state after a whole number of passes that each ran to their
  end, plus the alert; the queue is not empty; and the trace of the run obeys the
  discipline of the queue and ends with no row under work: each row the run read it also
  removed, after writing the rows of its subfolders. The same holds of the sheet
  \<open>Queue_STATE\<close> that a paused call of \<open>continuarAuditoria\<close> leaves.
\<close>

theorem C3_pausa_deja_la_cola_intacta:
  "(hojaDeCola s \<noteq> [] \<and> reloj k - t0 > TIEMPO_MAXIMO_EJECUCION_MS \<longrightarrow>
      bucle (Suc n) D reloj t0 k s = (Pausada, s\<lparr>alertasUi := alertasUi s @ [alertaPausa]\<rparr>)) \<and>
   (bucle n D reloj t0 k s = (Pausada, s1) \<longrightarrow>
      (\<exists>j s2. pasadas j D s = Some s2 \<and> hojaDeCola s2 \<noteq> [] \<and>
              s1 = s2\<lparr>alertasUi := alertasUi s2 @ [alertaPausa]\<rparr>) \<and>
      (\<exists>t. traza s1 = traza s @ t \<and>
           disciplina (hojaDeCola s) None t = Some (hojaDeCola s1, None))) \<and>
   (Queue_STATE ss = Some q0 \<and> continuarAuditoria n D reloj ss = (Pausada, ss1, tr) \<longrightarrow>
      (\<exists>q. Queue_STATE ss1 = Some q \<and> q \<noteq> [] \<and> disciplina q0 None tr = Some (q, None)))"
proof (intro conjI impI)
  assume "hojaDeCola s \<noteq> [] \<and> reloj k - t0 > TIEMPO_MAXIMO_EJECUCION_MS"
  then show "bucle (Suc n) D reloj t0 k s = (Pausada, s\<lparr>alertasUi := alertasUi s @ [alertaPausa]\<rparr>)"
    by simp
next
  assume "bucle n D reloj t0 k s = (Pausada, s1)"
  then show "\<exists>j s2. pasadas j D s = Some s2 \<and> hojaDeCola s2 \<noteq> [] \<and>
              s1 = s2\<lparr>alertasUi := alertasUi s2 @ [alertaPausa]\<rparr>"
    by (rule bucle_pausada)
next
  assume p: "bucle n D reloj t0 k s = (Pausada, s1)"
  from bucle_disciplina[OF p] show "\<exists>t. traza s1 = traza s @ t \<and>
           disciplina (hojaDeCola s) None t = Some (hojaDeCola s1, None)"
    by auto
next
  assume a: "Queue_STATE ss = Some q0 \<and> continuarAuditoria n D reloj ss = (Pausada, ss1, tr)"
  then obtain rep where rep: "Reporte_de_Permisos ss = Some rep"
    by (cases "Reporte_de_Permisos ss") (auto simp: continuarAuditoria_def)
  let ?s0 = "\<lparr> hojaDeCola = q0, hojaReporte = rep, registroLogger = LoggerActivo ss,
               alertasUi = alertasActivo ss, traza = [] \<rparr>"
  obtain res s1 where b: "bucle n D reloj (reloj 0) 1 ?s0 = (res, s1)"
    by (cases "bucle n D reloj (reloj 0) 1 ?s0")
  from a rep b have r: "res = Pausada" "Queue_STATE ss1 = Some (hojaDeCola s1)" "tr = traza s1"
    by (auto simp: continuarAuditoria_def Let_def split: if_splits)
  from bucle_pausada[OF b[unfolded r(1)]] have ne: "hojaDeCola s1 \<noteq> []" by auto
  from bucle_disciplina[OF b] r(1)
  have "disciplina q0 None (traza s1) = Some (hojaDeCola s1, None)" by auto
  with r ne show "\<exists>q. Queue_STATE ss1 = Some q \<and> q \<noteq> [] \<and>
                    disciplina q0 None tr = Some (q, None)"
    by simp
qed

text \<open>
  An instance: the clock passes the budget after the first pass; the run pauses with the
  row of \<open>B\<close> in the queue, as the first pass left it.
\<close>

theorem C3_witness:
  "bucle 3 driveAC relojTarde 0 1 (sesionCon [filaA]) =
     (Pausada, sesionTrasA\<lparr>alertasUi := [alertaPausa]\<rparr>) \<and>
   hojaDeCola (snd (bucle 3 driveAC relojTarde 0 1 (sesionCon [filaA]))) = [filaB] \<and>
   traza (snd (bucle 3 driveAC relojTarde 0 1 (sesionCon [filaA]))) =
     [Leer filaA, Encolar filaB, Borrar filaA]"
proof -
  have h: "hojaDeCola sesionTrasA \<noteq> [] \<and>
           relojTarde (Suc (Suc 0)) - 0 > TIEMPO_MAXIMO_EJECUCION_MS"
    by (simp add: sesionTrasA_def relojTarde_def TIEMPO_MAXIMO_EJECUCION_MS_def)
  have "bucle (Suc (Suc (Suc 0))) driveAC relojTarde 0 (Suc 0) (sesionCon [filaA]) =
        bucle (Suc (Suc 0)) driveAC relojTarde 0 (Suc (Suc 0)) sesionTrasA"
    by (rule bucle_paso)
       (simp_all add: sesionCon_def relojTarde_def TIEMPO_MAXIMO_EJECUCION_MS_def
          pasada_A[unfolded sesionCon_def])
  also have "\<dots> = (Pausada, sesionTrasA\<lparr>alertasUi := alertasUi sesionTrasA @ [alertaPausa]\<rparr>)"
    using C3_pausa_deja_la_cola_intacta
            [of sesionTrasA relojTarde "Suc (Suc 0)" 0 "Suc 0" driveAC] h
    by blast
  finally have "bucle 3 driveAC relojTarde 0 1 (sesionCon [filaA]) =
        (Pausada, sesionTrasA\<lparr>alertasUi := alertasUi sesionTrasA @ [alertaPausa]\<rparr>)"
    by (simp add: numeral_3_eq_3)
  then show ?thesis by (simp add: sesionTrasA_def)
qed

text \<open>
  C6. When the cell of the first row does not decode, the pass removes that row and does
  nothing else but log: the queue is the rest, in order (nothing was added, the row is not
  put back), the report is untouched, the pass ends without an exception, and unless the
  budget is exceeded the loop goes on with the rest of the queue.
\<close>

theorem C6_fila_ilegible_descartada:
  assumes "hojaDeCola s = f # resto" and "JSON_parse (cachePermisos f) = Inl e"
  shows "iteracion D s =
           (None, s\<lparr>hojaDeCola := resto,
                    registroLogger := registroLogger s @ [mensajeJSONCrash f e],
                    traza := traza s @ [Leer f, Borrar f]\<rparr>) \<and>
         hojaDeCola (snd (iteracion D s)) = resto \<and>
         hojaReporte (snd (iteracion D s)) = hojaReporte s \<and>
         (\<not> reloj k - t0 > TIEMPO_MAXIMO_EJECUCION_MS \<longrightarrow>
            bucle (Suc n) D reloj t0 k s = bucle n D reloj t0 (Suc k) (snd (iteracion D s)))"
proof -
  have it: "iteracion D s =
           (None, s\<lparr>hojaDeCola := resto,
                    registroLogger := registroLogger s @ [mensajeJSONCrash f e],
                    traza := traza s @ [Leer f, Borrar f]\<rparr>)"
    using assms by (simp add: iteracion_def deleteRow2_def)
  then show ?thesis using assms(1) by simp
qed

text \<open>
  An instance: an undecodable row ahead of the root row; the run drops it and then
  audits the drive to the end.
\<close>

theorem C6_witness:
  "hojaDeCola (snd (iteracion driveAC (sesionCon [filaIlegible, filaA]))) = [filaA] \<and>
   hojaReporte (snd (iteracion driveAC (sesionCon [filaIlegible, filaA]))) = [] \<and>
   fst (iteracion driveAC (sesionCon [filaIlegible, filaA])) = None \<and>
   bucle 4 driveAC relojQuieto 0 0 (sesionCon [filaIlegible, filaA]) =
     bucle 3 driveAC relojQuieto 0 1
       ((sesionCon [filaA])
          \<lparr>registroLogger := [mensajeJSONCrash filaIlegible
                                 (SyntaxError ''Unexpected end of JSON input'')],
           traza := [Leer filaIlegible, Borrar filaIlegible]\<rparr>)"
proof -
  let ?s = "sesionCon [filaIlegible, filaA]"
  have a: "hojaDeCola ?s = filaIlegible # [filaA]" by (simp add: sesionCon_def)
  have b: "JSON_parse (cachePermisos filaIlegible) =
             Inl (SyntaxError ''Unexpected end of JSON input'')"
    by (simp add: filaIlegible_def)
  note c = C6_fila_ilegible_descartada[OF a b, of driveAC relojQuieto 0 0 "Suc (Suc (Suc 0))"]
  have s1: "snd (iteracion driveAC ?s) =
              (sesionCon [filaA])
                \<lparr>registroLogger := [mensajeJSONCrash filaIlegible
                                       (SyntaxError ''Unexpected end of JSON input'')],
                 traza := [Leer filaIlegible, Borrar filaIlegible]\<rparr>"
    using c by (simp add: sesionCon_def)
  have "bucle (Suc (Suc (Suc (Suc 0)))) driveAC relojQuieto 0 0 ?s =
        bucle (Suc (Suc (Suc 0))) driveAC relojQuieto 0 (Suc 0) (snd (iteracion driveAC ?s))"
    using c relojQuieto_a_tiempo(1)[of 0] by blast
  then have "bucle 4 driveAC relojQuieto 0 0 ?s =
        bucle 3 driveAC relojQuieto 0 1 (snd (iteracion driveAC ?s))"
    by (simp add: eval_nat_numeral)
  then show ?thesis using c s1 by (simp add: sesionCon_def)
qed

text \<open>
  C5. A pass that runs to its end reads the first row of the queue, then writes the rows
  of that folder's subfolders below the last row, then removes the first row: the queue
  after it is the rest followed by the new rows. Every run of the loop obeys the
  discipline of the queue (a row is read only when the row before it has been removed;
  rows are added only behind a row that still heads the queue), and rows leave the queue
  in the order in which they entered it: the rows removed followed by the rows left are
  the initial rows followed by the rows added. A row stays under work at the end only of
  a run that an exception has left.
\<close>

theorem C5_orden_en_anchura:
  "(hojaDeCola s = f # resto \<and> iteracion D s = (None, s1) \<longrightarrow>
      hojaDeCola s1 = resto @ hijosDe D f \<and>
      traza s1 = traza s @ Leer f # map Encolar (hijosDe D f) @ [Borrar f]) \<and>
   (bucle n D reloj t0 k s = (r, s2) \<longrightarrow>
      (\<exists>t c. traza s2 = traza s @ t \<and>
             disciplina (hojaDeCola s) None t = Some (hojaDeCola s2, c) \<and>
             (c = None \<or> (\<exists>e. r = Abortada e)) \<and>
             hojaDeCola s @ encolados t = borrados t @ hojaDeCola s2))"
proof (intro conjI impI)
  assume a: "hojaDeCola s = f # resto \<and> iteracion D s = (None, s1)"
  then show "hojaDeCola s1 = resto @ hijosDe D f"
    using iteracion_completa(1)[of s f resto D s1] by simp
  from a show "traza s1 = traza s @ Leer f # map Encolar (hijosDe D f) @ [Borrar f]"
    using iteracion_completa(2)[of s f resto D s1] by simp
next
  assume b: "bucle n D reloj t0 k s = (r, s2)"
  from bucle_disciplina[OF b] obtain t c where
    t: "traza s2 = traza s @ t" "disciplina (hojaDeCola s) None t = Some (hojaDeCola s2, c)"
       "c = None \<or> (\<exists>e. r = Abortada e)" by blast
  from disciplina_fifo[OF t(2)] have "hojaDeCola s @ encolados t = borrados t @ hojaDeCola s2" .
  with t show "\<exists>t c. traza s2 = traza s @ t \<and>
             disciplina (hojaDeCola s) None t = Some (hojaDeCola s2, c) \<and>
             (c = None \<or> (\<exists>e. r = Abortada e)) \<and>
             hojaDeCola s @ encolados t = borrados t @ hojaDeCola s2" by blast
qed

text \<open>
  An instance: the run over the example drive. The root \<open>A\<close> is read, its child \<open>B\<close> is
  added, \<open>A\<close> is removed, then \<open>B\<close> is read and removed.
\<close>

theorem C5_witness:
  "hijosDe driveAC filaA = [filaB] \<and>
   hojaDeCola sesionTrasA = [filaB] \<and>
   traza sesionTrasA = [Leer filaA, Encolar filaB, Borrar filaA] \<and>
   disciplina [filaA] None [Leer filaA, Encolar filaB, Borrar filaA, Leer filaB, Borrar filaB] =
     Some ([], None)"
proof -
  let ?s = "sesionCon [filaA]"
  let ?fin = "sesionTrasA\<lparr>hojaDeCola := [],
        traza := [Leer filaA, Encolar filaB, Borrar filaA, Leer filaB, Borrar filaB]\<rparr>"
  have a: "hojaDeCola ?s = filaA # [] \<and> iteracion driveAC ?s = (None, sesionTrasA)"
    using pasada_A by (simp add: sesionCon_def)
  note c = C5_orden_en_anchura[of ?s filaA "[]" driveAC sesionTrasA 3 relojQuieto 0 1
             Completada ?fin]
  from c a have 1: "hojaDeCola sesionTrasA = [] @ hijosDe driveAC filaA" by blast
  from c bucle_AC obtain t k where
    t: "traza ?fin = traza ?s @ t"
       "disciplina (hojaDeCola ?s) None t = Some (hojaDeCola ?fin, k)"
       "k = None \<or> (\<exists>e. Completada = Abortada e)"
    by blast
  from t(3) have k: "k = None" by simp
  have tr: "traza ?s = []" "hojaDeCola ?s = [filaA]" by (simp_all add: sesionCon_def)
  from t(1) tr have t': "t = [Leer filaA, Encolar filaB, Borrar filaA, Leer filaB, Borrar filaB]"
    by simp
  from 1 t(2) k tr t' show ?thesis by (simp add: sesionTrasA_def)
qed

text \<open>
  The claim as written fails on the same run: the row of \<open>A\<close> is not removed before the
  row of \<open>B\<close> is added; it is removed after.
\<close>

theorem C5_counterexample:
  "\<not> antes (Borrar filaA) (Encolar filaB)
        (traza (snd (bucle 3 driveAC relojQuieto 0 1 (sesionCon [filaA])))) \<and>
   antes (Encolar filaB) (Borrar filaA)
        (traza (snd (bucle 3 driveAC relojQuieto 0 1 (sesionCon [filaA])))) \<and>
   hojaDeCola (encolarSubcarpetas filaA conjuntoAna carpetaA (sesionCon [filaA])) =
     [filaA, filaB]"
proof -
  have ne: "filaA \<noteq> filaB" by (simp add: filaA_def filaB_def filaRaiz_def)
  have "hojaDeCola (encolarSubcarpetas filaA conjuntoAna carpetaA (sesionCon [filaA])) = [filaA, filaB]"
    by (simp add: encolarSubcarpetas_def ramificacionesNuevasACola_def carpetaA_def sesionCon_def
          filaA_def filaB_def filaRaiz_def Let_def)
  then show ?thesis using ne unfolding bucle_AC by (simp add: antes_def)
qed

subsection \<open>Writing findings to the pages\<close>


lemma preparar_sin_pagina_nueva:
  "\<not> sinHoja (idSheet e) \<Longrightarrow> filaActual e < LIMITE_FILAS_POR_HOJA_REPORTE \<Longrightarrow>
   prepararParticion r e w = (None, e, w)"
  by (simp add: prepararParticion_def)

lemma preparar_pagina_nueva:
  assumes "sinHoja (idSheet e) \<or> filaActual e \<ge> LIMITE_FILAS_POR_HOJA_REPORTE"
    and "r_create r = Inr i" and "r_cabeceras r = None" and "r_moveTo r = None"
  shows "prepararParticion r e w =
           (None, e\<lparr>idSheet := Some i, filaActual := 2, parteActual := parteActual e + 1\<rparr>,
            w\<lparr>libros := libros w @ [libroNuevo i e]\<rparr>)"
  using assms by (auto simp: prepararParticion_def Let_def libroNuevo_def)

lemma appendRow_en_ultimo:
  "i \<notin> libro_id ` set ps \<Longrightarrow> libro_id b = i \<Longrightarrow>
   appendRow_en i d (ps @ [b]) = ps @ [b\<lparr>libro_filas := libro_filas b @ [d]\<rparr>]"
proof -
  assume a: "i \<notin> libro_id ` set ps" and b: "libro_id b = i"
  have "map (\<lambda>x. if libro_id x = i then x\<lparr>libro_filas := libro_filas x @ [d]\<rparr> else x) ps = ps"
    using a by (intro map_idI) auto
  then show ?thesis using b by (simp add: appendRow_en_def)
qed

lemma volcar_en_pagina:
  assumes "idSheet e = Some i" and "i \<noteq> []" and "filaActual e < LIMITE_FILAS_POR_HOJA_REPORTE"
    and "r_appendRow r = None" and "libros w = ps @ [b]" and "libro_id b = i"
    and "i \<notin> libro_id ` set ps"
  shows "volcarHallazgoAPaginacion r e d w =
           (None, e\<lparr>filaActual := filaActual e + 1\<rparr>,
            w\<lparr>libros := ps @ [b\<lparr>libro_filas := libro_filas b @ [d]\<rparr>]\<rparr>)"
proof -
  have "prepararParticion r e w = (None, e, w)"
    using assms(1-3) by (simp add: preparar_sin_pagina_nueva sinHoja_def)
  then show ?thesis
    using assms by (simp add: volcarHallazgoAPaginacion_def anexarHallazgo_def appendRow_en_ultimo)
qed

lemma volcar_abre_pagina:
  assumes "sinHoja (idSheet e) \<or> filaActual e \<ge> LIMITE_FILAS_POR_HOJA_REPORTE"
    and "r_create r = Inr i" and "sinFallos r" and "i \<notin> libro_id ` set (libros w)"
  shows "volcarHallazgoAPaginacion r e d w =
           (None, e\<lparr>idSheet := Some i, filaActual := 3, parteActual := parteActual e + 1\<rparr>,
            w\<lparr>libros := libros w @
                 [(libroNuevo i e)\<lparr>libro_filas := [CABECERAS_REPORTE_TECNICO, d]\<rparr>]\<rparr>)"
proof -
  have p: "prepararParticion r e w =
           (None, e\<lparr>idSheet := Some i, filaActual := 2, parteActual := parteActual e + 1\<rparr>,
            w\<lparr>libros := libros w @ [libroNuevo i e]\<rparr>)"
    using assms by (simp add: preparar_pagina_nueva sinFallos_def)
  have a: "appendRow_en i d (libros w @ [libroNuevo i e]) =
             libros w @ [(libroNuevo i e)\<lparr>libro_filas := libro_filas (libroNuevo i e) @ [d]\<rparr>]"
    using assms(4) by (intro appendRow_en_ultimo) (simp_all add: libroNuevo_def)
  show ?thesis
    using assms(3) unfolding volcarHallazgoAPaginacion_def p
    by (simp add: anexarHallazgo_def sinFallos_def a) (simp add: libroNuevo_def)
qed

lemma volcarTodos_append:
  "volcarTodos (xs @ ys) e w =
     (case volcarTodos xs e w of
        (Some err, e1, w1) \<Rightarrow> (Some err, e1, w1)
      | (None, e1, w1) \<Rightarrow> volcarTodos ys e1 w1)"
  by (induction xs arbitrary: e w) (auto split: prod.splits option.splits)

lemma volcarTodos_llena:
  assumes "idSheet e = Some i" and "i \<noteq> []"
    and "filaActual e + int (length rs) \<le> LIMITE_FILAS_POR_HOJA_REPORTE"
    and "\<forall>x \<in> set rs. r_appendRow (fst x) = None"
    and "libros w = ps @ [b]" and "libro_id b = i" and "i \<notin> libro_id ` set ps"
  shows "volcarTodos rs e w =
           (None, e\<lparr>filaActual := filaActual e + int (length rs)\<rparr>,
            w\<lparr>libros := ps @ [b\<lparr>libro_filas := libro_filas b @ map snd rs\<rparr>]\<rparr>)"
  using assms
proof (induction rs arbitrary: e w b)
  case Nil
  then show ?case by simp
next
  case (Cons x rs)
  obtain r d where x: "x = (r, d)" by (cases x)
  let ?e1 = "e\<lparr>filaActual := filaActual e + 1\<rparr>"
  let ?b1 = "b\<lparr>libro_filas := libro_filas b @ [d]\<rparr>"
  let ?w1 = "w\<lparr>libros := ps @ [?b1]\<rparr>"
  have v: "volcarHallazgoAPaginacion r e d w = (None, ?e1, ?w1)"
    using Cons.prems x by (intro volcar_en_pagina) auto
  have "volcarTodos rs ?e1 ?w1 =
          (None, ?e1\<lparr>filaActual := filaActual ?e1 + int (length rs)\<rparr>,
           ?w1\<lparr>libros := ps @ [?b1\<lparr>libro_filas := libro_filas ?b1 @ map snd rs\<rparr>]\<rparr>)"
    using Cons.prems by (intro Cons.IH) auto
  then show ?case using v x by simp
qed

subsection \<open>Rollover\<close>


lemma libroNuevo_solo_parte:
  "libroNuevo i (e\<lparr>idSheet := a, filaActual := f, parteActual := p\<rparr>) =
   libroNuevo i (e\<lparr>parteActual := p\<rparr>)"
  by (simp add: libroNuevo_def)

lemma volcarTodos_primera_pagina:
  assumes "sinHoja (idSheet e)" and "libros w = []" and "r_create r1 = Inr i1" and "i1 \<noteq> []"
    and "sinFallos r1" and "\<forall>x \<in> set mid. r_appendRow (fst x) = None"
    and "3 + int (length mid) \<le> LIMITE_FILAS_POR_HOJA_REPORTE"
  shows "volcarTodos ((r1, d1) # mid) e w =
           (None,
            e\<lparr>idSheet := Some i1, filaActual := 3 + int (length mid),
              parteActual := parteActual e + 1\<rparr>,
            w\<lparr>libros := [(libroNuevo i1 e)
                            \<lparr>libro_filas := CABECERAS_REPORTE_TECNICO # d1 # map snd mid\<rparr>]\<rparr>)"
proof -
  let ?e1 = "e\<lparr>idSheet := Some i1, filaActual := 3, parteActual := parteActual e + 1\<rparr>"
  let ?b1 = "(libroNuevo i1 e)\<lparr>libro_filas := [CABECERAS_REPORTE_TECNICO, d1]\<rparr>"
  let ?w1 = "w\<lparr>libros := libros w @ [?b1]\<rparr>"
  have 1: "volcarHallazgoAPaginacion r1 e d1 w = (None, ?e1, ?w1)"
    using assms by (intro volcar_abre_pagina) auto
  have 2: "volcarTodos mid ?e1 ?w1 =
             (None, ?e1\<lparr>filaActual := filaActual ?e1 + int (length mid)\<rparr>,
              ?w1\<lparr>libros := [] @ [?b1\<lparr>libro_filas := libro_filas ?b1 @ map snd mid\<rparr>]\<rparr>)"
    using assms by (intro volcarTodos_llena[where i = i1]) (auto simp: libroNuevo_def)
  show ?thesis using 1 2 by simp
qed

lemma volcarTodos_dos_paginas:
  assumes "sinHoja (idSheet e)" and "libros w = []" and "r_create r1 = Inr i1" and "i1 \<noteq> []"
    and "sinFallos r1" and "\<forall>x \<in> set mid. r_appendRow (fst x) = None"
    and "int (length mid) = LIMITE_FILAS_POR_HOJA_REPORTE - 3"
    and "r_create r2 = Inr i2" and "i1 \<noteq> i2" and "sinFallos r2"
  shows "volcarTodos ((r1, d1) # mid @ [(r2, d2)]) e w =
           (None,
            e\<lparr>idSheet := Some i2, filaActual := 3, parteActual := parteActual e + 2\<rparr>,
            w\<lparr>libros := [(libroNuevo i1 e)
                            \<lparr>libro_filas := CABECERAS_REPORTE_TECNICO # d1 # map snd mid\<rparr>,
                          (libroNuevo i2 (e\<lparr>parteActual := parteActual e + 1\<rparr>))
                            \<lparr>libro_filas := [CABECERAS_REPORTE_TECNICO, d2]\<rparr>]\<rparr>)"
proof -
  let ?e1 = "e\<lparr>idSheet := Some i1, filaActual := 3 + int (length mid),
              parteActual := parteActual e + 1\<rparr>"
  let ?b1 = "(libroNuevo i1 e)\<lparr>libro_filas := CABECERAS_REPORTE_TECNICO # d1 # map snd mid\<rparr>"
  let ?w1 = "w\<lparr>libros := [?b1]\<rparr>"
  have 1: "volcarTodos ((r1, d1) # mid) e w = (None, ?e1, ?w1)"
    using assms by (intro volcarTodos_primera_pagina) auto
  have 2: "volcarHallazgoAPaginacion r2 ?e1 d2 ?w1 =
             (None, ?e1\<lparr>idSheet := Some i2, filaActual := 3, parteActual := parteActual ?e1 + 1\<rparr>,
              ?w1\<lparr>libros := libros ?w1 @
                     [(libroNuevo i2 ?e1)\<lparr>libro_filas := [CABECERAS_REPORTE_TECNICO, d2]\<rparr>]\<rparr>)"
    using assms by (intro volcar_abre_pagina) (auto simp: libroNuevo_def)
  have "volcarTodos (((r1, d1) # mid) @ [(r2, d2)]) e w =
          (None, ?e1\<lparr>idSheet := Some i2, filaActual := 3, parteActual := parteActual ?e1 + 1\<rparr>,
              ?w1\<lparr>libros := libros ?w1 @
                     [(libroNuevo i2 ?e1)\<lparr>libro_filas := [CABECERAS_REPORTE_TECNICO, d2]\<rparr>]\<rparr>)"
    unfolding volcarTodos_append 1 using 2 by simp
  then show ?thesis by (simp add: libroNuevo_solo_parte)
qed

text \<open>
  C2. A call creates a page exactly when the state has no sheet id or its row counter
  \<open>filaActual\<close> has reached \<open>LIMITE_FILAS_POR_HOJA_REPORTE\<close>: otherwise the state and the
  Drive are left as they are by lines 31 to 54; and when it does (the platform raising
  no exception), the part counter is one more, the new spreadsheet holds the header row
  and nothing else, and the row counter is 2. The counter is the number of the next row
  of the sheet, the header being row 1, so a page takes \<open>LIMITE - 2\<close> findings: from a
  state with no page, after \<open>LIMITE - 2\<close> findings one page exists, and after
  \<open>LIMITE - 1\<close> findings exactly two pages exist, the second holding the header and
  exactly one finding.
\<close>

theorem C2_particion_al_llegar_al_limite:
  "(\<not> sinHoja (idSheet e) \<and> filaActual e < LIMITE_FILAS_POR_HOJA_REPORTE \<longrightarrow>
      prepararParticion r e w = (None, e, w)) \<and>
   ((sinHoja (idSheet e) \<or> filaActual e \<ge> LIMITE_FILAS_POR_HOJA_REPORTE) \<and>
    r_create r = Inr i \<and> sinFallos r \<longrightarrow>
      prepararParticion r e w =
        (None, e\<lparr>idSheet := Some i, filaActual := 2, parteActual := parteActual e + 1\<rparr>,
         w\<lparr>libros := libros w @ [libroNuevo i e]\<rparr>)) \<and>
   (sinHoja (idSheet e) \<and> libros w = [] \<and>
    r_create r1 = Inr i1 \<and> r_create r2 = Inr i2 \<and> i1 \<noteq> [] \<and> i1 \<noteq> i2 \<and>
    sinFallos r1 \<and> sinFallos r2 \<and> (\<forall>x \<in> set mid. r_appendRow (fst x) = None) \<and>
    int (length mid) = LIMITE_FILAS_POR_HOJA_REPORTE - 3 \<longrightarrow>
      volcarTodos ((r1, d1) # mid) e w =
        (None,
         e\<lparr>idSheet := Some i1, filaActual := LIMITE_FILAS_POR_HOJA_REPORTE,
           parteActual := parteActual e + 1\<rparr>,
         w\<lparr>libros := [(libroNuevo i1 e)
                         \<lparr>libro_filas := CABECERAS_REPORTE_TECNICO # d1 # map snd mid\<rparr>]\<rparr>) \<and>
      volcarTodos ((r1, d1) # mid @ [(r2, d2)]) e w =
        (None,
         e\<lparr>idSheet := Some i2, filaActual := 3, parteActual := parteActual e + 2\<rparr>,
         w\<lparr>libros := [(libroNuevo i1 e)
                         \<lparr>libro_filas := CABECERAS_REPORTE_TECNICO # d1 # map snd mid\<rparr>,
                       (libroNuevo i2 (e\<lparr>parteActual := parteActual e + 1\<rparr>))
                         \<lparr>libro_filas := [CABECERAS_REPORTE_TECNICO, d2]\<rparr>]\<rparr>))"
proof (intro conjI impI)
  assume "\<not> sinHoja (idSheet e) \<and> filaActual e < LIMITE_FILAS_POR_HOJA_REPORTE"
  then show "prepararParticion r e w = (None, e, w)"
    by (simp add: preparar_sin_pagina_nueva)
next
  assume "(sinHoja (idSheet e) \<or> filaActual e \<ge> LIMITE_FILAS_POR_HOJA_REPORTE) \<and>
    r_create r = Inr i \<and> sinFallos r"
  then show "prepararParticion r e w =
        (None, e\<lparr>idSheet := Some i, filaActual := 2, parteActual := parteActual e + 1\<rparr>,
         w\<lparr>libros := libros w @ [libroNuevo i e]\<rparr>)"
    by (intro preparar_pagina_nueva) (auto simp: sinFallos_def)
next
  assume a: "sinHoja (idSheet e) \<and> libros w = [] \<and>
    r_create r1 = Inr i1 \<and> r_create r2 = Inr i2 \<and> i1 \<noteq> [] \<and> i1 \<noteq> i2 \<and>
    sinFallos r1 \<and> sinFallos r2 \<and> (\<forall>x \<in> set mid. r_appendRow (fst x) = None) \<and>
    int (length mid) = LIMITE_FILAS_POR_HOJA_REPORTE - 3"
  then have "volcarTodos ((r1, d1) # mid) e w =
           (None,
            e\<lparr>idSheet := Some i1, filaActual := 3 + int (length mid),
              parteActual := parteActual e + 1\<rparr>,
            w\<lparr>libros := [(libroNuevo i1 e)
                            \<lparr>libro_filas := CABECERAS_REPORTE_TECNICO # d1 # map snd mid\<rparr>]\<rparr>)"
    by (intro volcarTodos_primera_pagina) auto
  then show "volcarTodos ((r1, d1) # mid) e w =
        (None,
         e\<lparr>idSheet := Some i1, filaActual := LIMITE_FILAS_POR_HOJA_REPORTE,
           parteActual := parteActual e + 1\<rparr>,
         w\<lparr>libros := [(libroNuevo i1 e)
                         \<lparr>libro_filas := CABECERAS_REPORTE_TECNICO # d1 # map snd mid\<rparr>]\<rparr>)"
    using a by simp
  from a show "volcarTodos ((r1, d1) # mid @ [(r2, d2)]) e w =
        (None,
         e\<lparr>idSheet := Some i2, filaActual := 3, parteActual := parteActual e + 2\<rparr>,
         w\<lparr>libros := [(libroNuevo i1 e)
                         \<lparr>libro_filas := CABECERAS_REPORTE_TECNICO # d1 # map snd mid\<rparr>,
                       (libroNuevo i2 (e\<lparr>parteActual := parteActual e + 1\<rparr>))
                         \<lparr>libro_filas := [CABECERAS_REPORTE_TECNICO, d2]\<rparr>]\<rparr>)"
    by (intro volcarTodos_dos_paginas) auto
qed

lemma escrituras_49998:
  "escrituras 49998 n =
     (respuestaBuena ''P1'', hallazgoEj) # replicate 49997 (respuestaBuena ''P1'', hallazgoEj) @
     replicate n (respuestaBuena ''P2'', hallazgoEj)"
proof -
  have "replicate (Suc 49997) (respuestaBuena ''P1'', hallazgoEj) =
          (respuestaBuena ''P1'', hallazgoEj) # replicate 49997 (respuestaBuena ''P1'', hallazgoEj)"
    by (rule replicate_Suc)
  moreover have "Suc 49997 = 49998" by simp
  ultimately show ?thesis by (simp add: escrituras_def)
qed

lemma respuestaBuena_simps:
  "r_create (respuestaBuena i) = Inr i" "sinFallos (respuestaBuena i)"
  "r_appendRow (respuestaBuena i) = None"
  by (simp_all add: respuestaBuena_def sinFallos_def)

text \<open>
  An instance: 49999 findings written from a state with no page, the platform naming
  the two new spreadsheets \<open>P1\<close> and \<open>P2\<close>. Two pages exist, with 49999 and 2 rows.
\<close>

theorem C2_witness:
  "length (escrituras 49998 1) = nat (LIMITE_FILAS_POR_HOJA_REPORTE - 1) \<and>
   fst (volcarTodos (escrituras 49998 1) estadoInicial salidaVacia) = None \<and>
   map (\<lambda>b. (libro_id b, length (libro_filas b)))
       (libros (snd (snd (volcarTodos (escrituras 49998 1) estadoInicial salidaVacia)))) =
     [(''P1'', 49999), (''P2'', 2)] \<and>
   parteActual (fst (snd (volcarTodos (escrituras 49998 1) estadoInicial salidaVacia))) = 2"
proof -
  let ?mid = "replicate 49997 (respuestaBuena ''P1'', hallazgoEj)"
  have h: "sinHoja (idSheet estadoInicial) \<and> libros salidaVacia = [] \<and>
    r_create (respuestaBuena ''P1'') = Inr ''P1'' \<and> r_create (respuestaBuena ''P2'') = Inr ''P2'' \<and>
    ''P1'' \<noteq> [] \<and> ''P1'' \<noteq> ''P2'' \<and>
    sinFallos (respuestaBuena ''P1'') \<and> sinFallos (respuestaBuena ''P2'') \<and>
    (\<forall>x \<in> set ?mid. r_appendRow (fst x) = None) \<and>
    int (length ?mid) = LIMITE_FILAS_POR_HOJA_REPORTE - 3"
    by (simp add: respuestaBuena_simps sinHoja_def estadoInicial_def salidaVacia_def
          LIMITE_FILAS_POR_HOJA_REPORTE_def)
  have e: "escrituras 49998 1 =
             (respuestaBuena ''P1'', hallazgoEj) # ?mid @ [(respuestaBuena ''P2'', hallazgoEj)]"
    by (simp add: escrituras_49998)
  from C2_particion_al_llegar_al_limite
         [of estadoInicial _ salidaVacia _ "respuestaBuena ''P1''" "''P1''"
             "respuestaBuena ''P2''" "''P2''" ?mid hallazgoEj hallazgoEj] h
  have "volcarTodos ((respuestaBuena ''P1'', hallazgoEj) # ?mid @
                     [(respuestaBuena ''P2'', hallazgoEj)]) estadoInicial salidaVacia =
        (None,
         estadoInicial\<lparr>idSheet := Some ''P2'', filaActual := 3,
                        parteActual := parteActual estadoInicial + 2\<rparr>,
         salidaVacia\<lparr>libros := [(libroNuevo ''P1'' estadoInicial)
                         \<lparr>libro_filas := CABECERAS_REPORTE_TECNICO # hallazgoEj # map snd ?mid\<rparr>,
                       (libroNuevo ''P2'' (estadoInicial\<lparr>parteActual := parteActual estadoInicial + 1\<rparr>))
                         \<lparr>libro_filas := [CABECERAS_REPORTE_TECNICO, hallazgoEj]\<rparr>]\<rparr>)"
    by blast
  then show ?thesis unfolding e
    by (simp add: libroNuevo_def estadoInicial_def LIMITE_FILAS_POR_HOJA_REPORTE_def)
qed

text \<open>
  The claim as written fails: after \<open>LIMITE + 1\<close> findings (50001) two pages exist, but
  the second holds the header and three findings, not one.
\<close>

theorem C2_counterexample:
  "length (escrituras 49998 3) = nat (LIMITE_FILAS_POR_HOJA_REPORTE + 1) \<and>
   fst (volcarTodos (escrituras 49998 3) estadoInicial salidaVacia) = None \<and>
   map (\<lambda>b. (libro_id b, length (libro_filas b)))
       (libros (snd (snd (volcarTodos (escrituras 49998 3) estadoInicial salidaVacia)))) =
     [(''P1'', 49999), (''P2'', 4)]"
proof -
  let ?mid = "replicate 49997 (respuestaBuena ''P1'', hallazgoEj)"
  let ?x2 = "(respuestaBuena ''P2'', hallazgoEj)"
  let ?e2 = "estadoInicial\<lparr>idSheet := Some ''P2'', filaActual := 3,
                        parteActual := parteActual estadoInicial + 2\<rparr>"
  let ?b1 = "(libroNuevo ''P1'' estadoInicial)
                         \<lparr>libro_filas := CABECERAS_REPORTE_TECNICO # hallazgoEj # map snd ?mid\<rparr>"
  let ?b2 = "(libroNuevo ''P2'' (estadoInicial\<lparr>parteActual := parteActual estadoInicial + 1\<rparr>))
                         \<lparr>libro_filas := [CABECERAS_REPORTE_TECNICO, hallazgoEj]\<rparr>"
  let ?w2 = "salidaVacia\<lparr>libros := [?b1, ?b2]\<rparr>"
  have e: "escrituras 49998 3 = ((respuestaBuena ''P1'', hallazgoEj) # ?mid @ [?x2]) @ [?x2, ?x2]"
    by (simp add: escrituras_49998 numeral_3_eq_3)
  have 1: "volcarTodos ((respuestaBuena ''P1'', hallazgoEj) # ?mid @ [?x2]) estadoInicial salidaVacia =
             (None, ?e2, ?w2)"
    by (intro volcarTodos_dos_paginas)
       (simp_all add: respuestaBuena_simps sinHoja_def estadoInicial_def salidaVacia_def
          LIMITE_FILAS_POR_HOJA_REPORTE_def)
  have 2: "volcarTodos [?x2, ?x2] ?e2 ?w2 =
             (None, ?e2\<lparr>filaActual := filaActual ?e2 + int (length [?x2, ?x2])\<rparr>,
              ?w2\<lparr>libros := [?b1] @ [?b2\<lparr>libro_filas := libro_filas ?b2 @ map snd [?x2, ?x2]\<rparr>]\<rparr>)"
    by (intro volcarTodos_llena[where i = "''P2''"])
       (simp_all add: respuestaBuena_simps libroNuevo_def LIMITE_FILAS_POR_HOJA_REPORTE_def)
  have "volcarTodos (escrituras 49998 3) estadoInicial salidaVacia =
          (None, ?e2\<lparr>filaActual := filaActual ?e2 + int (length [?x2, ?x2])\<rparr>,
              ?w2\<lparr>libros := [?b1] @ [?b2\<lparr>libro_filas := libro_filas ?b2 @ map snd [?x2, ?x2]\<rparr>]\<rparr>)"
    unfolding e volcarTodos_append 1 using 2 by simp
  then show ?thesis
    by (simp add: libroNuevo_def escrituras_def LIMITE_FILAS_POR_HOJA_REPORTE_def)
qed

subsection \<open>A failed append\<close>


lemma preparar_fila:
  "prepararParticion r e w = (None, e1, w1) \<Longrightarrow>
   filaActual e1 =
     (if sinHoja (idSheet e) \<or> LIMITE_FILAS_POR_HOJA_REPORTE \<le> filaActual e then 2
      else filaActual e)"
  by (auto simp: prepararParticion_def Let_def split: if_splits sum.splits option.splits)

text \<open>
  C9. When the append of the finding throws, the function logs one line and returns
  the state exactly as the page test of lines 31 to 54 left it: the row counter is not
  incremented (it is the counter the call was given, or 2 when the call has just created
  a page, which then holds its header only), no spreadsheet has received the row, and
  the rest of a sequence of writes goes on from that state: the row is not written
  later. On a state that has a page with room left, the state and the Drive are returned
  unchanged but for the log line. The same holds when \<open>openById\<close> finds no spreadsheet
  with the id.
\<close>

theorem C9_fallo_al_anexar:
  "(r_appendRow r = Some err \<and> prepararParticion r e w = (None, e1, w1) \<longrightarrow>
      volcarHallazgoAPaginacion r e d w =
        (None, e1, w1\<lparr>LoggerSalida := LoggerSalida w1 @ [mensajeDriverError e1 err]\<rparr>) \<and>
      filaActual e1 =
        (if sinHoja (idSheet e) \<or> LIMITE_FILAS_POR_HOJA_REPORTE \<le> filaActual e then 2
         else filaActual e) \<and>
      volcarTodos ((r, d) # resto) e w =
        volcarTodos resto e1
          (w1\<lparr>LoggerSalida := LoggerSalida w1 @ [mensajeDriverError e1 err]\<rparr>)) \<and>
   (r_appendRow r = Some err \<and> \<not> sinHoja (idSheet e) \<and>
    filaActual e < LIMITE_FILAS_POR_HOJA_REPORTE \<longrightarrow>
      volcarHallazgoAPaginacion r e d w =
        (None, e, w\<lparr>LoggerSalida := LoggerSalida w @ [mensajeDriverError e err]\<rparr>)) \<and>
   (r_appendRow r = None \<and> prepararParticion r e w = (None, e1, w1) \<and>
    idSheet e1 = Some i \<and> i \<notin> set (map libro_id (libros w1)) \<longrightarrow>
      volcarHallazgoAPaginacion r e d w =
        (None, e1,
         w1\<lparr>LoggerSalida := LoggerSalida w1 @ [mensajeDriverError e1 errorOpenById]\<rparr>))"
proof (intro conjI impI)
  assume a: "r_appendRow r = Some err \<and> prepararParticion r e w = (None, e1, w1)"
  then show v: "volcarHallazgoAPaginacion r e d w =
        (None, e1, w1\<lparr>LoggerSalida := LoggerSalida w1 @ [mensajeDriverError e1 err]\<rparr>)"
    by (simp add: volcarHallazgoAPaginacion_def anexarHallazgo_def)
  from a show "filaActual e1 =
        (if sinHoja (idSheet e) \<or> LIMITE_FILAS_POR_HOJA_REPORTE \<le> filaActual e then 2
         else filaActual e)"
    using preparar_fila[of r e w e1 w1] by simp
  from v show "volcarTodos ((r, d) # resto) e w =
        volcarTodos resto e1
          (w1\<lparr>LoggerSalida := LoggerSalida w1 @ [mensajeDriverError e1 err]\<rparr>)"
    by simp
next
  assume "r_appendRow r = Some err \<and> \<not> sinHoja (idSheet e) \<and>
    filaActual e < LIMITE_FILAS_POR_HOJA_REPORTE"
  then show "volcarHallazgoAPaginacion r e d w =
        (None, e, w\<lparr>LoggerSalida := LoggerSalida w @ [mensajeDriverError e err]\<rparr>)"
    by (simp add: volcarHallazgoAPaginacion_def anexarHallazgo_def preparar_sin_pagina_nueva)
next
  assume "r_appendRow r = None \<and> prepararParticion r e w = (None, e1, w1) \<and>
    idSheet e1 = Some i \<and> i \<notin> set (map libro_id (libros w1))"
  then show "volcarHallazgoAPaginacion r e d w =
        (None, e1,
         w1\<lparr>LoggerSalida := LoggerSalida w1 @ [mensajeDriverError e1 errorOpenById]\<rparr>)"
    by (simp add: volcarHallazgoAPaginacion_def anexarHallazgo_def)
qed

text \<open>
  An instance: the first write of a run fails at its append. The page exists with its
  header only, the counter is 2, one line is logged; a second write then puts its
  finding in row 2.
\<close>

theorem C9_witness:
  "volcarHallazgoAPaginacion (respuestaSinAnexar ''P1'') estadoInicial hallazgoEj salidaVacia =
     (None,
      estadoInicial\<lparr>idSheet := Some ''P1'', filaActual := 2, parteActual := 1\<rparr>,
      \<lparr> libros = [libroNuevo ''P1'' estadoInicial],
        LoggerSalida =
          [mensajeDriverError (estadoInicial\<lparr>idSheet := Some ''P1''\<rparr>)
             (Error ''Service Spreadsheets failed'')] \<rparr>) \<and>
   map libro_filas
     (libros (snd (snd (volcarTodos
        [(respuestaSinAnexar ''P1'', hallazgoEj), (respuestaBuena ''P2'', [''otra''])]
        estadoInicial salidaVacia)))) =
     [[CABECERAS_REPORTE_TECNICO, [''otra'']]]"
proof -
  let ?r = "respuestaSinAnexar ''P1''"
  let ?e1 = "estadoInicial\<lparr>idSheet := Some ''P1'', filaActual := 2,
                            parteActual := parteActual estadoInicial + 1\<rparr>"
  let ?w1 = "salidaVacia\<lparr>libros := libros salidaVacia @ [libroNuevo ''P1'' estadoInicial]\<rparr>"
  let ?w2 = "?w1\<lparr>LoggerSalida := LoggerSalida ?w1 @
                 [mensajeDriverError ?e1 (Error ''Service Spreadsheets failed'')]\<rparr>"
  have p: "prepararParticion ?r estadoInicial salidaVacia = (None, ?e1, ?w1)"
    by (intro preparar_pagina_nueva)
       (simp_all add: respuestaSinAnexar_def estadoInicial_def sinHoja_def)
  have h: "r_appendRow ?r = Some (Error ''Service Spreadsheets failed'') \<and>
           prepararParticion ?r estadoInicial salidaVacia = (None, ?e1, ?w1)"
    using p by (simp add: respuestaSinAnexar_def)
  note c = C9_fallo_al_anexar[of ?r "Error ''Service Spreadsheets failed''" estadoInicial
             salidaVacia ?e1 ?w1 hallazgoEj "[(respuestaBuena ''P2'', [''otra''])]"]
  from c h have 1: "volcarHallazgoAPaginacion ?r estadoInicial hallazgoEj salidaVacia =
                      (None, ?e1, ?w2)"
    by blast
  from c h have 2: "volcarTodos [(?r, hallazgoEj), (respuestaBuena ''P2'', [''otra''])]
                      estadoInicial salidaVacia =
                    volcarTodos [(respuestaBuena ''P2'', [''otra''])] ?e1 ?w2"
    by blast
  have 3: "volcarHallazgoAPaginacion (respuestaBuena ''P2'') ?e1 [''otra''] ?w2 =
             (None, ?e1\<lparr>filaActual := filaActual ?e1 + 1\<rparr>,
              ?w2\<lparr>libros := [] @ [(libroNuevo ''P1'' estadoInicial)
                        \<lparr>libro_filas := libro_filas (libroNuevo ''P1'' estadoInicial) @ [[''otra'']]\<rparr>]\<rparr>)"
    by (intro volcar_en_pagina[where i = "''P1''"])
       (simp_all add: respuestaBuena_simps salidaVacia_def libroNuevo_def
          LIMITE_FILAS_POR_HOJA_REPORTE_def)
  show ?thesis unfolding 2 using 1 3
    by (simp add: salidaVacia_def estadoInicial_def libroNuevo_def mensajeDriverError_def)
qed

subsection \<open>Detection, and emission in the single-file variant\<close>


text \<open>
  Detection in \<open>registrarDiferenciasPermisos\<close>: the flag is set exactly when some user
  named by either object has a different level in the two, or the public levels differ,
  or the domain levels differ. Objects that name the same editors and the same viewers,
  in whatever order, with the same link levels raise no flag; in particular an object
  compared with itself does not.
\<close>

lemma deteccion_de_diferencias:
  "diferenciasDetectadas P C =
     ((\<exists>u \<in> set (editores P) \<union> set (visualizadores P) \<union>
             set (editores C) \<union> set (visualizadores C).
         obtenerNivelAccesoUsuario u P \<noteq> obtenerNivelAccesoUsuario u C) \<or>
      accesoPublico P \<noteq> accesoPublico C \<or> accesoDominio P \<noteq> accesoDominio C) \<and>
   (set (editores P) = set (editores C) \<and> set (visualizadores P) = set (visualizadores C) \<and>
    accesoPublico P = accesoPublico C \<and> accesoDominio P = accesoDominio C \<longrightarrow>
      \<not> diferenciasDetectadas P C) \<and>
   \<not> diferenciasDetectadas P P"
proof -
  have "\<not> diferenciasDetectadas P C"
    if "set (editores P) = set (editores C) \<and> set (visualizadores P) = set (visualizadores C) \<and>
        accesoPublico P = accesoPublico C \<and> accesoDominio P = accesoDominio C"
    using that unfolding diferenciasDetectadas_iff
    by (auto simp: obtenerNivelAccesoUsuario_def)
  moreover have "\<not> diferenciasDetectadas P P"
    unfolding diferenciasDetectadas_iff by simp
  ultimately show ?thesis using diferenciasDetectadas_iff[of P C] by blast
qed

text \<open>An instance: a child that adds a viewer and a public link; and the same viewers listed in another order.\<close>

lemma deteccion_de_diferencias_ejemplo:
  "diferenciasDetectadas conjuntoAna conjuntoAnaBeto \<and>
   \<not> diferenciasDetectadas
        (conjuntoAna\<lparr>visualizadores := [''beto@x.com'', ''caro@x.com'']\<rparr>)
        (conjuntoAna\<lparr>visualizadores := [''caro@x.com'', ''beto@x.com'']\<rparr>)"
proof -
  let ?P = "conjuntoAna\<lparr>visualizadores := [''beto@x.com'', ''caro@x.com'']\<rparr>"
  let ?C = "conjuntoAna\<lparr>visualizadores := [''caro@x.com'', ''beto@x.com'']\<rparr>"
  have h: "set (editores ?P) = set (editores ?C) \<and>
           set (visualizadores ?P) = set (visualizadores ?C) \<and>
           accesoPublico ?P = accesoPublico ?C \<and> accesoDominio ?P = accesoDominio ?C"
    by auto
  have d: "accesoPublico conjuntoAna \<noteq> accesoPublico conjuntoAnaBeto"
    by (simp add: conjuntoAna_def conjuntoAnaBeto_def)
  from deteccion_de_diferencias[of ?P ?C] h
       deteccion_de_diferencias[of conjuntoAna conjuntoAnaBeto] d
  show ?thesis by blast
qed

text \<open>
  The single-file variant emits as the specification says: \<open>logDifferences\<close> appends
  exactly one row to the sheet it is given when its flag is set, the row holding the
  path, the link, the kind and the rendered access of the child, and leaves the sheet
  as it is otherwise; its flag is set under the same condition as above.
\<close>

lemma logDifferences_una_fila:
  "fst (logDifferences P C path url ty sheet d L) =
     (if differencesFound P C
      then sheet @ [[path, url, ty,
                     if sinAccesoExplicito C
                     then ''Permisos solo por herencia (pero con diferencias)''
                     else Array_join (usersWithRole C d) '', '']]
      else sheet) \<and>
   differencesFound P C = diferenciasDetectadas P C \<and>
   usersWithRole C d = listaUsuariosRoles C d"
proof -
  have u: "usersWithRole C d = listaUsuariosRoles C d"
    by (simp add: usersWithRole_def listaUsuariosRoles_def)
  have e: "(listaUsuariosRoles C d = []) = sinAccesoExplicito C"
    by (auto simp: listaUsuariosRoles_eq sinAccesoExplicito_def)
  have f: "differencesFound P C = diferenciasDetectadas P C"
    unfolding differencesFound_iff diferenciasDetectadas_iff
    by (simp add: getAccess_def obtenerNivelAccesoUsuario_def)
  show ?thesis using u e f by (auto simp: logDifferences_def Let_def)
qed

text \<open>An instance: the folder of the example that differs from its parent, and one that does not.\<close>

lemma logDifferences_una_fila_ejemplo:
  "fst (logDifferences conjuntoAna conjuntoAnaBeto ''Unidad/b'' ''url-B'' ''Carpeta'' [] ''x.com'' []) =
     [[''Unidad/b'', ''url-B'', ''Carpeta'',
       ''P'' @ [CHR 0xFA] @ ''blico (Cualquiera con enlace) - Visualizador, ana@x.com - Editor, beto@x.com - Visualizador'']] \<and>
   fst (logDifferences conjuntoAna conjuntoAna ''Unidad/b'' ''url-B'' ''Carpeta'' [] ''x.com'' []) = []"
proof -
  have a: "\<not> sinAccesoExplicito conjuntoAnaBeto"
    by (simp add: sinAccesoExplicito_def conjuntoAnaBeto_def)
  have l: "listaUsuariosRoles conjuntoAnaBeto ''x.com'' =
             [''P'' @ [CHR 0xFA] @ ''blico (Cualquiera con enlace) - Visualizador'',
              ''ana@x.com - Editor'', ''beto@x.com - Visualizador'']"
    by (simp add: listaUsuariosRoles_eq conjuntoAnaBeto_def)
  from logDifferences_una_fila[of conjuntoAna conjuntoAnaBeto "''Unidad/b''" "''url-B''" "''Carpeta''" "[]" "''x.com''" "[]"]
       logDifferences_una_fila[of conjuntoAna conjuntoAna "''Unidad/b''" "''url-B''" "''Carpeta''" "[]" "''x.com''" "[]"]
       a l diferencias_Ana_AnaBeto sin_diferencias_Ana
  show ?thesis by simp
qed

subsection \<open>Resumption\<close>


lemma iteracion_alertas_indep:
  "iteracion D (s\<lparr>alertasUi := a\<rparr>) =
     (fst (iteracion D s), (snd (iteracion D s))\<lparr>alertasUi := a\<rparr>)"
  by (simp add: iteracion_def Let_def revisarDocumentos_def encolarSubcarpetas_def
        deleteRow2_def
      split: list.splits sum.splits prod.splits option.splits)

lemma pasadas_alertas_indep:
  "pasadas j D (s\<lparr>alertasUi := a\<rparr>) = map_option (\<lambda>s1. s1\<lparr>alertasUi := a\<rparr>) (pasadas j D s)"
proof (induction j arbitrary: s)
  case 0
  then show ?case by simp
next
  case (Suc j)
  obtain x s1 where it: "iteracion D s = (x, s1)" by (cases "iteracion D s")
  then show ?case using Suc.IH[of s1]
    by (cases x) (simp_all add: iteracion_alertas_indep)
qed

lemma pasadas_alertas: "pasadas j D s = Some s1 \<Longrightarrow> alertasUi s1 = alertasUi s"
proof (induction j arbitrary: s)
  case 0
  then show ?case by simp
next
  case (Suc j)
  then obtain s2 where it: "iteracion D s = (None, s2)" and r: "pasadas j D s2 = Some s1"
    by (auto split: if_splits prod.splits option.splits)
  from iteracion_alertas[of D s] it have "alertasUi s2 = alertasUi s" by simp
  with Suc.IH[OF r] show ?case by simp
qed

lemma pasadas_add:
  "pasadas (j + m) D s = (case pasadas j D s of None \<Rightarrow> None | Some s2 \<Rightarrow> pasadas m D s2)"
  by (induction j arbitrary: s) (auto split: prod.splits option.splits)

lemma pasadas_fin_unico:
  assumes "pasadas m D s = Some s1" and "hojaDeCola s1 = []"
    and "pasadas m' D s = Some s2" and "hojaDeCola s2 = []"
  shows "s1 = s2"
proof -
  have aux: "a = b" if "pasadas i D s = Some a" "hojaDeCola a = []"
      "pasadas (i + d) D s = Some b" for i d a b
  proof -
    from that(3) have "(case pasadas i D s of None \<Rightarrow> None | Some s2 \<Rightarrow> pasadas d D s2) = Some b"
      by (simp only: pasadas_add)
    with that(1) have "pasadas d D a = Some b" by simp
    with that(2) show ?thesis by (cases d) simp_all
  qed
  show ?thesis
  proof (cases "m \<le> m'")
    case True
    then obtain d where "m' = m + d" using le_Suc_ex by blast
    with assms aux[of m s1 d s2] show ?thesis by simp
  next
    case False
    then obtain d where "m = m' + d" using le_Suc_ex[of m' m] by auto
    with assms aux[of m' s2 d s1] show ?thesis by simp
  qed
qed

lemma bucle_completada:
  "bucle n D reloj t0 k s = (Completada, s1) \<Longrightarrow>
     \<exists>m. pasadas m D s = Some s1 \<and> hojaDeCola s1 = []"
proof (induction n arbitrary: k s)
  case 0
  then show ?case by simp
next
  case (Suc n)
  show ?case
  proof (cases "hojaDeCola s = []")
    case True
    with Suc.prems have "pasadas 0 D s = Some s1 \<and> hojaDeCola s1 = []" by simp
    then show ?thesis by blast
  next
    case False
    with Suc.prems obtain s2 where it: "iteracion D s = (None, s2)"
        and rest: "bucle n D reloj t0 (Suc k) s2 = (Completada, s1)"
      by (auto split: if_splits prod.splits option.splits)
    from Suc.IH[OF rest] obtain m where "pasadas m D s2 = Some s1" "hojaDeCola s1 = []" by blast
    with False it have "pasadas (Suc m) D s = Some s1 \<and> hojaDeCola s1 = []" by simp
    then show ?thesis by blast
  qed
qed

text \<open>
  Resumption: when a call pauses and a later call on the state it left runs to the end,
  the report, the log and the trace are those of a single call that runs to the end
  from the initial state, whatever the clocks; the alerts differ by the one of the pause.
\<close>

lemma reanudacion_equivalente:
  assumes U: "bucle n D reloj t0 k s = (Completada, sU)"
    and P: "bucle n1 D reloj1 t1 k1 s = (Pausada, sP)"
    and R: "bucle n2 D reloj2 t2 k2 sP = (Completada, sR)"
  shows "hojaReporte sR = hojaReporte sU \<and> registroLogger sR = registroLogger sU \<and>
         traza sR = traza sU \<and> hojaDeCola sR = [] \<and>
         alertasUi sR = alertasUi sU @ [alertaPausa]"
proof -
  from bucle_pausada[OF P] obtain j s2 where
    j: "pasadas j D s = Some s2" "sP = s2\<lparr>alertasUi := alertasUi s2 @ [alertaPausa]\<rparr>"
    by blast
  from bucle_completada[OF R] obtain m where
    m: "pasadas m D sP = Some sR" "hojaDeCola sR = []" by blast
  from m(1) j(2) obtain s3 where
    s3: "pasadas m D s2 = Some s3" "sR = s3\<lparr>alertasUi := alertasUi s2 @ [alertaPausa]\<rparr>"
    by (auto simp: pasadas_alertas_indep)
  have "pasadas (j + m) D s = Some s3" using j(1) s3(1) by (simp add: pasadas_add)
  moreover have "hojaDeCola s3 = []" using m(2) s3(2) by simp
  moreover from bucle_completada[OF U] obtain mu where
    mu: "pasadas mu D s = Some sU" "hojaDeCola sU = []" by blast
  ultimately have eq: "s3 = sU" using pasadas_fin_unico by blast
  have "alertasUi s2 = alertasUi s" using pasadas_alertas[OF j(1)] .
  moreover have "alertasUi s3 = alertasUi s2" using pasadas_alertas[OF s3(1)] .
  ultimately show ?thesis using eq s3(2) mu(2) by simp
qed

end
